theory Spec2Isabelle
  imports Main "HOL-Library.Sublist"
begin

section \<open>Data model\<close>

text \<open>
  Monetary amounts are the store's \<open>decimal(15,2)\<close> columns, held here as a whole
  number of cents. Instants (\<open>Date\<close>) are whole milliseconds. Wallet and user ids are
  strings; a transaction id is the generated primary key, drawn from a counter of the store.
\<close>

datatype TransactionType = DEPOSIT | WITHDRAWAL | TRANSFER | REFUND | COMPENSATION

datatype TransactionStatus = PENDING | PROCESSING | COMPLETED | FAILED | CANCELLED | COMPENSATED

text \<open>The enum \<open>TransferState\<close>; its members carry the prefix \<open>TS_\<close> because three of them
  share their name with a member of \<open>TransactionStatus\<close>.\<close>

datatype TransferState =
    TS_INITIATED
  | TS_FUNDS_RESERVED
  | TS_VALIDATION_COMPLETE
  | TS_DEBIT_COMPLETE
  | TS_CREDIT_COMPLETE
  | TS_COMPLETED
  | TS_COMPENSATION_PENDING
  | TS_COMPENSATED
  | TS_FAILED

text \<open>What the code throws: the three HTTP exceptions of the framework (400, 404, 409) and
  the plain \<open>Error\<close>, each with its message. Where the code builds the message from values
  or passes an object, the message here is the fixed sentence of it.\<close>

datatype exn =
    BadRequestException string
  | NotFoundException string
  | ConflictException string
  | Error string

fun message :: "exn \<Rightarrow> string" where
  "message (BadRequestException m) = m"
| "message (NotFoundException m) = m"
| "message (ConflictException m) = m"
| "message (Error m) = m"

record Wallet =
  w_balance :: int
  w_currency :: string
  w_isActive :: bool
  w_userId :: string

record TransferLimit =
  l_dailyLimit :: int
  l_monthlyLimit :: int
  l_dailyUsed :: int
  l_monthlyUsed :: int
  l_lastDailyReset :: int
  l_lastMonthlyReset :: int

record ErrorDetails =
  ed_message :: string
  ed_step :: nat
  ed_errorCode :: "string option"

text \<open>\<open>SagaState\<close> without its \<open>context\<close> field, which the run state below holds once.\<close>

record SagaState =
  currentStep :: nat
  completedSteps :: "string list"
  compensatedSteps :: "string list"
  lastError :: "exn option"
  retryCount :: nat

record SagaContext =
  c_transactionId :: nat
  c_sourceWalletId :: string
  c_destinationWalletId :: string
  c_amount :: int
  c_userId :: string
  c_idempotencyKey :: string
  c_externalReferenceId :: "string option"
  c_sourceBalanceBefore :: "int option"
  c_destinationBalanceBefore :: "int option"

text \<open>The columns of a transaction row that the transfer core reads or writes. The opaque
  \<open>metadata\<close> blob and \<open>createdAt\<close> are left out; the order of the rows stands for
  \<open>createdAt\<close>.\<close>

record Transaction =
  t_id :: nat
  t_amount :: int
  t_type :: TransactionType
  t_status :: TransactionStatus
  t_transferState :: "TransferState option"
  t_description :: string
  t_sourceWalletId :: "string option"
  t_destinationWalletId :: "string option"
  t_idempotencyKey :: "string option"
  t_externalReferenceId :: "string option"
  t_retryCount :: nat
  t_processedAt :: "int option"
  t_completedAt :: "int option"
  t_failedAt :: "int option"
  t_errorDetails :: "ErrorDetails option"
  t_sagaState :: "SagaState option"
  t_reservedAmount :: "int option"
  t_reservationExpiry :: "int option"
  t_sourceBalanceBefore :: "int option"
  t_sourceBalanceAfter :: "int option"
  t_destinationBalanceBefore :: "int option"
  t_destinationBalanceAfter :: "int option"

text \<open>\<open>TransferResponseDto\<close>, with \<open>metadata.transferState\<close> as a field of its own.\<close>

record TransferResponseDto =
  r_id :: nat
  r_amount :: int
  r_sourceWalletId :: "string option"
  r_destinationWalletId :: "string option"
  r_description :: string
  r_status :: TransactionStatus
  r_transferState :: "TransferState option"

record TransferDto =
  destinationWalletId :: string
  amount :: int
  description :: "string option"
  idempotencyKey :: "string option"
  externalReferenceId :: "string option"

record User =
  u_id :: string
  u_email :: string

record WalletBalanceWithVersion =
  b_balance :: int
  b_version :: nat
  b_lastUpdated :: int

record RequestHashEntry =
  h_idempotencyKey :: string
  h_createdAt :: int
  h_endpoint :: string
  h_method :: string

record ErrorData =
  e_error :: string
  e_timestamp :: int

text \<open>
  The world one request runs in: the three tables of the relational store, the cache, and
  the readings of the clock. The cache is one keyed store of strings in the code; every key
  the core uses starts with one of the prefixes \<open>idempotency:\<close>, \<open>idempotency_request:\<close>,
  \<open>idempotency_error:\<close>, \<open>request_hash:\<close>, \<open>wallet_balance_v2:\<close>, \<open>wallet_lock:\<close>,
  \<open>transfer_limit:\<close>, no one of which is a prefix of another, so the cache is held here as
  one map per prefix, from the rest of the key to the value that \<open>JSON.parse\<close> gives back.
  An entry that has expired is an entry that is absent from the world a request starts in.
  \<open>today\<close> and \<open>currentMonth\<close> are \<open>dayjs().startOf('day')\<close> and
  \<open>dayjs().startOf('month')\<close>. Outside the attempts of the saga's steps, the calls on the
  store and on the cache are taken to succeed.
\<close>

record world =
  wallets :: "string \<rightharpoonup> Wallet"
  transactions :: "Transaction list"
  transferLimits :: "string \<rightharpoonup> TransferLimit"
  nextTransactionId :: nat
  resultCache :: "string \<rightharpoonup> TransferResponseDto"
  requestCache :: "string \<rightharpoonup> int"
  errorCache :: "string \<rightharpoonup> ErrorData"
  requestHashCache :: "string \<rightharpoonup> RequestHashEntry"
  balanceCache :: "string \<rightharpoonup> WalletBalanceWithVersion"
  walletLocks :: "string \<rightharpoonup> string"
  limitUsageCache :: "string \<times> bool \<rightharpoonup> int"
  now :: int
  today :: int
  currentMonth :: int

section \<open>Idempotency service: the request hash\<close>

record CorePayload =
  cp_destinationWalletId :: string
  cp_amount :: int
  cp_description :: "string option"

record RequestData =
  rd_method :: string
  rd_endpoint :: string
  rd_payload :: CorePayload
  rd_userId :: string

text \<open>\<open>createRequestHash\<close>. The digest \<open>md5\<close> and \<open>JSON.stringify\<close> belong to the
  platform; they are parameters.\<close>

definition createRequestHash ::
  "(string \<Rightarrow> string) \<Rightarrow> (RequestData \<Rightarrow> string) \<Rightarrow> string \<Rightarrow> string \<Rightarrow> TransferDto \<Rightarrow> string \<Rightarrow> string" where
  "createRequestHash md5 stringify method endpoint payload userId =
     (let corePayload = \<lparr> cp_destinationWalletId = destinationWalletId payload,
                            cp_amount = amount payload,
                            cp_description = description payload \<rparr>;
          requestData = \<lparr> rd_method = method, rd_endpoint = endpoint,
                            rd_payload = corePayload, rd_userId = userId \<rparr>
      in md5 (stringify requestData))"

section \<open>Transfer service: the limit ledger\<close>

text \<open>\<open>validateTransferLimits\<close>: the row is loaded, reset in memory where a window has
  passed, checked, and saved after both checks.\<close>

definition validateTransferLimits :: "string \<Rightarrow> int \<Rightarrow> world \<Rightarrow> exn option \<times> world" where
  "validateTransferLimits userId amt w =
     (case transferLimits w userId of
        None \<Rightarrow> (Some (NotFoundException ''Transfer limits not found''), w)
      | Some transferLimit \<Rightarrow>
          let l1 = (if l_lastDailyReset transferLimit < today w
                    then transferLimit\<lparr> l_dailyUsed := 0, l_lastDailyReset := today w \<rparr>
                    else transferLimit);
              l2 = (if l_lastMonthlyReset l1 < currentMonth w
                    then l1\<lparr> l_monthlyUsed := 0, l_lastMonthlyReset := currentMonth w \<rparr>
                    else l1)
          in if l_dailyUsed l2 + amt > l_dailyLimit l2
             then (Some (BadRequestException ''Daily transfer limit exceeded''), w)
             else if l_monthlyUsed l2 + amt > l_monthlyLimit l2
             then (Some (BadRequestException ''Monthly transfer limit exceeded''), w)
             else (None, w\<lparr> transferLimits := (transferLimits w)(userId \<mapsto> l2) \<rparr>))"

text \<open>\<open>updateTransferLimitsUsage\<close>; the flag of a usage counter's key is \<open>True\<close> for
  \<open>daily\<close>.\<close>

definition invalidateTransferLimitUsage :: "string \<Rightarrow> world \<Rightarrow> world" where
  "invalidateTransferLimitUsage userId w =
     w\<lparr> limitUsageCache := ((limitUsageCache w)((userId, True) := None))((userId, False) := None) \<rparr>"

definition updateTransferLimitsUsage :: "string \<Rightarrow> int \<Rightarrow> world \<Rightarrow> world" where
  "updateTransferLimitsUsage userId amt w =
     (case transferLimits w userId of
        None \<Rightarrow> w
      | Some transferLimit \<Rightarrow>
          invalidateTransferLimitUsage userId
            (w\<lparr> transferLimits := (transferLimits w)(userId \<mapsto>
                  transferLimit\<lparr> l_dailyUsed := l_dailyUsed transferLimit + amt,
                                 l_monthlyUsed := l_monthlyUsed transferLimit + amt \<rparr>) \<rparr>))"

record TransferLimitsView =
  v_dailyLimit :: int
  v_dailyUsed :: int
  v_dailyRemaining :: int
  v_monthlyLimit :: int
  v_monthlyUsed :: int
  v_monthlyRemaining :: int
  v_lastDailyReset :: int
  v_lastMonthlyReset :: int

text \<open>\<open>getTransferLimits\<close>: the counters are zeroed on the loaded object only; the
  function has no call that writes.\<close>

definition getTransferLimits :: "string \<Rightarrow> world \<Rightarrow> (exn + TransferLimitsView) \<times> world" where
  "getTransferLimits userId w =
     (case transferLimits w userId of
        None \<Rightarrow> (Inl (NotFoundException ''Transfer limits not found''), w)
      | Some transferLimit \<Rightarrow>
          let l1 = (if l_lastDailyReset transferLimit < today w
                    then transferLimit\<lparr> l_dailyUsed := 0 \<rparr> else transferLimit);
              l2 = (if l_lastMonthlyReset l1 < currentMonth w
                    then l1\<lparr> l_monthlyUsed := 0 \<rparr> else l1)
          in (Inr \<lparr> v_dailyLimit = l_dailyLimit l2,
                    v_dailyUsed = l_dailyUsed l2,
                    v_dailyRemaining = l_dailyLimit l2 - l_dailyUsed l2,
                    v_monthlyLimit = l_monthlyLimit l2,
                    v_monthlyUsed = l_monthlyUsed l2,
                    v_monthlyRemaining = l_monthlyLimit l2 - l_monthlyUsed l2,
                    v_lastDailyReset = l_lastDailyReset l2,
                    v_lastMonthlyReset = l_lastMonthlyReset l2 \<rparr>, w))"

section \<open>The store and the cache, as the saga uses them\<close>

text \<open>\<open>walletRepository.findOne({ where: { id, isActive: true } })\<close>.\<close>

definition findActiveWallet :: "string \<Rightarrow> world \<Rightarrow> Wallet option" where
  "findActiveWallet walletId w =
     (case wallets w walletId of
        None \<Rightarrow> None
      | Some x \<Rightarrow> if w_isActive x then Some x else None)"

text \<open>\<open>walletRepository.update({ id }, { balance: () => `balance + d` })\<close>: the store
  evaluates the expression on the row; a missing row is not an error.\<close>

definition adjustBalance :: "string \<Rightarrow> int \<Rightarrow> world \<Rightarrow> world" where
  "adjustBalance walletId d w =
     (case wallets w walletId of
        None \<Rightarrow> w
      | Some x \<Rightarrow> w\<lparr> wallets := (wallets w)(walletId \<mapsto> x\<lparr> w_balance := w_balance x + d \<rparr>) \<rparr>)"

definition findTransaction :: "nat \<Rightarrow> world \<Rightarrow> Transaction option" where
  "findTransaction i w = find (\<lambda>t. t_id t = i) (transactions w)"

text \<open>\<open>transactionRepository.save\<close> of an entity that has an id: the row of that id is
  written, or inserted as the newest row when there is none.\<close>

definition saveTransaction :: "Transaction \<Rightarrow> world \<Rightarrow> world" where
  "saveTransaction tx w =
     (case findTransaction (t_id tx) w of
        None \<Rightarrow> w\<lparr> transactions := tx # transactions w \<rparr>
      | Some _ \<Rightarrow> w\<lparr> transactions := map (\<lambda>t. if t_id t = t_id tx then tx else t) (transactions w) \<rparr>)"

definition getWalletBalanceWithVersion :: "string \<Rightarrow> world \<Rightarrow> WalletBalanceWithVersion option" where
  "getWalletBalanceWithVersion walletId w = balanceCache w walletId"

definition setWalletBalanceWithVersion :: "string \<Rightarrow> int \<Rightarrow> nat \<Rightarrow> world \<Rightarrow> world" where
  "setWalletBalanceWithVersion walletId bal version w =
     w\<lparr> balanceCache := (balanceCache w)(walletId \<mapsto>
          \<lparr> b_balance = bal, b_version = version, b_lastUpdated = now w \<rparr>) \<rparr>"

text \<open>The lease of the cache service: \<open>SET NX\<close> on \<open>wallet_lock:{walletId}\<close>, the scripted
  compare-and-delete, and \<open>withWalletLock\<close> around an operation. The lock value is the
  caller's fresh token.\<close>

definition acquireWalletLock :: "string \<Rightarrow> string \<Rightarrow> world \<Rightarrow> string option \<times> world" where
  "acquireWalletLock walletId lockValue w =
     (case walletLocks w walletId of
        None \<Rightarrow> (Some lockValue, w\<lparr> walletLocks := (walletLocks w)(walletId \<mapsto> lockValue) \<rparr>)
      | Some _ \<Rightarrow> (None, w))"

definition releaseWalletLock :: "string \<Rightarrow> string \<Rightarrow> world \<Rightarrow> bool \<times> world" where
  "releaseWalletLock walletId lockValue w =
     (if walletLocks w walletId = Some lockValue
      then (True, w\<lparr> walletLocks := (walletLocks w)(walletId := None) \<rparr>)
      else (False, w))"

definition withWalletLock ::
  "string \<Rightarrow> string \<Rightarrow> (world \<Rightarrow> (exn + 'a) \<times> world) \<Rightarrow> world \<Rightarrow> (exn + 'a) \<times> world" where
  "withWalletLock walletId token operation w =
     (case acquireWalletLock walletId token w of
        (None, w1) \<Rightarrow> (Inl (Error ''Unable to acquire lock for wallet''), w1)
      | (Some lockValue, w1) \<Rightarrow>
          (case operation w1 of
             (res, w2) \<Rightarrow> (res, snd (releaseWalletLock walletId lockValue w2))))"

section \<open>Saga service: the steps of a transfer\<close>

text \<open>
  A step awaits the store and the cache, and either may reject. What the environment does
  during one attempt of a step is a \<open>fault\<close>: with \<open>StoreDown\<close> every call to the store
  rejects, with \<open>CacheDown\<close> every call to the cache rejects. A step returns the error it
  throws, if any, together with the context and the world as it leaves them: what was
  written before the throw stays written, since no step opens a store transaction.
\<close>

datatype fault = NoFault | StoreDown | CacheDown

definition storeError :: exn where
  "storeError = Error ''store unavailable''"

definition cacheError :: exn where
  "cacheError = Error ''cache unavailable''"

type_synonym action = "fault \<Rightarrow> SagaContext \<Rightarrow> world \<Rightarrow> exn option \<times> SagaContext \<times> world"

definition validateTransfer :: action where
  "validateTransfer f context w =
     (if f = StoreDown then (Some storeError, context, w)
      else case findActiveWallet (c_sourceWalletId context) w of
        None \<Rightarrow> (Some (Error ''Source wallet not found or inactive''), context, w)
      | Some sourceWallet \<Rightarrow>
          (case findActiveWallet (c_destinationWalletId context) w of
             None \<Rightarrow> (Some (Error ''Destination wallet not found or inactive''), context, w)
           | Some destinationWallet \<Rightarrow>
               if w_currency sourceWallet \<noteq> w_currency destinationWallet
               then (Some (Error ''Currency mismatch between wallets''), context, w)
               else (None, context, w)))"

definition reserveFunds :: action where
  "reserveFunds f context w =
     (if f = StoreDown then (Some storeError, context, w)
      else case findTransaction (c_transactionId context) w of
        None \<Rightarrow> (Some (Error ''Transaction not found''), context, w)
      | Some transaction \<Rightarrow>
          (None, context,
           saveTransaction (transaction\<lparr> t_reservedAmount := Some (c_amount context),
                                         t_reservationExpiry := Some (now w + 30 * 60 * 1000) \<rparr>) w))"

text \<open>The test \<open>transaction.reservedAmount\<close> is JavaScript truthiness: a null and a zero
  amount are both false.\<close>

definition releaseReservedFunds :: action where
  "releaseReservedFunds f context w =
     (if f = StoreDown then (Some storeError, context, w)
      else case findTransaction (c_transactionId context) w of
        None \<Rightarrow> (None, context, w)
      | Some transaction \<Rightarrow>
          if t_reservedAmount transaction \<noteq> None \<and> t_reservedAmount transaction \<noteq> Some 0
          then (None, context,
                saveTransaction (transaction\<lparr> t_reservedAmount := None,
                                              t_reservationExpiry := None \<rparr>) w)
          else (None, context, w))"

definition debitSourceWallet :: action where
  "debitSourceWallet f context w =
     (if f = StoreDown then (Some storeError, context, w)
      else case wallets w (c_sourceWalletId context) of
        None \<Rightarrow> (Some (Error ''Source wallet not found''), context, w)
      | Some sourceWallet \<Rightarrow>
          if w_balance sourceWallet < c_amount context
          then (Some (Error ''Insufficient balance''), context, w)
          else
            let context1 = context\<lparr> c_sourceBalanceBefore := Some (w_balance sourceWallet) \<rparr>;
                w1 = adjustBalance (c_sourceWalletId context) (- c_amount context) w
            in if f = CacheDown then (Some cacheError, context1, w1)
               else
                 let newBalance = w_balance sourceWallet - c_amount context;
                     newVersion = (case getWalletBalanceWithVersion (c_sourceWalletId context) w1 of
                                     Some cachedData \<Rightarrow> b_version cachedData + 1
                                   | None \<Rightarrow> 1)
                 in (None, context1,
                     setWalletBalanceWithVersion (c_sourceWalletId context) newBalance newVersion w1))"

definition creditSourceWallet :: action where
  "creditSourceWallet f context w =
     (if f = StoreDown then (Some storeError, context, w)
      else
        let w1 = adjustBalance (c_sourceWalletId context) (c_amount context) w
        in case wallets w1 (c_sourceWalletId context) of
             None \<Rightarrow> (None, context, w1)
           | Some sourceWallet \<Rightarrow>
               if f = CacheDown then (Some cacheError, context, w1)
               else
                 let newVersion = (case getWalletBalanceWithVersion (c_sourceWalletId context) w1 of
                                     Some cachedData \<Rightarrow> b_version cachedData + 1
                                   | None \<Rightarrow> 1)
                 in (None, context,
                     setWalletBalanceWithVersion (c_sourceWalletId context)
                       (w_balance sourceWallet) newVersion w1))"

definition creditDestinationWallet :: action where
  "creditDestinationWallet f context w =
     (if f = StoreDown then (Some storeError, context, w)
      else case wallets w (c_destinationWalletId context) of
        None \<Rightarrow> (Some (Error ''Destination wallet not found''), context, w)
      | Some destinationWallet \<Rightarrow>
          let context1 = context\<lparr> c_destinationBalanceBefore := Some (w_balance destinationWallet) \<rparr>;
              w1 = adjustBalance (c_destinationWalletId context) (c_amount context) w
          in if f = CacheDown then (Some cacheError, context1, w1)
             else
               let newBalance = w_balance destinationWallet + c_amount context;
                   newVersion = (case getWalletBalanceWithVersion (c_destinationWalletId context) w1 of
                                   Some cachedData \<Rightarrow> b_version cachedData + 1
                                 | None \<Rightarrow> 1)
               in (None, context1,
                   setWalletBalanceWithVersion (c_destinationWalletId context) newBalance newVersion w1))"

definition debitDestinationWallet :: action where
  "debitDestinationWallet f context w =
     (if f = StoreDown then (Some storeError, context, w)
      else
        let w1 = adjustBalance (c_destinationWalletId context) (- c_amount context) w
        in case wallets w1 (c_destinationWalletId context) of
             None \<Rightarrow> (None, context, w1)
           | Some destinationWallet \<Rightarrow>
               if f = CacheDown then (Some cacheError, context, w1)
               else
                 let newVersion = (case getWalletBalanceWithVersion (c_destinationWalletId context) w1 of
                                     Some cachedData \<Rightarrow> b_version cachedData + 1
                                   | None \<Rightarrow> 1)
                 in (None, context,
                     setWalletBalanceWithVersion (c_destinationWalletId context)
                       (w_balance destinationWallet) newVersion w1))"

definition finalizeTransfer :: action where
  "finalizeTransfer f context w =
     (if f = StoreDown then (Some storeError, context, w)
      else case (findTransaction (c_transactionId context) w,
                 wallets w (c_sourceWalletId context),
                 wallets w (c_destinationWalletId context)) of
        (Some transaction, Some sourceWallet, Some destinationWallet) \<Rightarrow>
          (None, context,
           saveTransaction
             (transaction\<lparr> t_sourceBalanceAfter := Some (w_balance sourceWallet),
                           t_destinationBalanceAfter := Some (w_balance destinationWallet),
                           t_sourceBalanceBefore := c_sourceBalanceBefore context,
                           t_destinationBalanceBefore := c_destinationBalanceBefore context \<rparr>) w)
      | _ \<Rightarrow> (None, context, w))"

text \<open>A compensation with an empty body awaits nothing and cannot fail.\<close>

definition noCompensation :: action where
  "noCompensation f context w = (None, context, w)"

text \<open>A step. The closures of the code capture the context object, which the steps
  mutate; here each action is given the current context and returns it.\<close>

record SagaStep =
  name :: string
  execute :: action
  compensate :: action
  retryable :: bool
  maxRetries :: nat

definition createTransferSagaSteps :: "SagaStep list" where
  "createTransferSagaSteps =
     [ \<lparr> name = ''validate_transfer'', execute = validateTransfer,
         compensate = noCompensation, retryable = True, maxRetries = 3 \<rparr>,
       \<lparr> name = ''reserve_funds'', execute = reserveFunds,
         compensate = releaseReservedFunds, retryable = True, maxRetries = 2 \<rparr>,
       \<lparr> name = ''debit_source_wallet'', execute = debitSourceWallet,
         compensate = creditSourceWallet, retryable = True, maxRetries = 2 \<rparr>,
       \<lparr> name = ''credit_destination_wallet'', execute = creditDestinationWallet,
         compensate = debitDestinationWallet, retryable = True, maxRetries = 2 \<rparr>,
       \<lparr> name = ''finalize_transfer'', execute = finalizeTransfer,
         compensate = noCompensation, retryable = False, maxRetries = 0 \<rparr> ]"

section \<open>Saga service: the coordinator\<close>

text \<open>
  The state of one run of \<open>executeSaga\<close>: the world, the context object, the coordinator's
  entity \<open>transaction\<close>, the saga state, and what the environment will do at each coming
  attempt: \<open>r_faults\<close> for the attempts of forward steps, \<open>r_cfaults\<close> for the attempts of
  compensations, one entry an attempt, \<open>NoFault\<close> once a list is used up. The coordinator's
  own writes of the transaction row are taken to succeed.
\<close>

record run =
  r_world :: world
  r_context :: SagaContext
  r_transaction :: Transaction
  r_sagaState :: SagaState
  r_faults :: "fault list"
  r_cfaults :: "fault list"

fun nextFault :: "fault list \<Rightarrow> fault \<times> fault list" where
  "nextFault [] = (NoFault, [])"
| "nextFault (f # fs) = (f, fs)"

text \<open>
  \<open>transactionRepository.save(transaction)\<close> by the coordinator. Its entity was built by
  \<open>create\<close> and never reloaded, so the columns that only the steps set (the reservation and
  the balance snapshots) are undefined on it and a save leaves them as the row has them.
  \<open>updateSagaState\<close> assigns the saga state object itself to \<open>transaction.sagaState\<close>, so
  from then on the entity sees every later change of the saga state; \<open>executeSaga\<close> calls
  it before anything else.
\<close>

definition saveEntity :: "run \<Rightarrow> run" where
  "saveEntity rs =
     (let tx = (r_transaction rs)\<lparr> t_sagaState := Some (r_sagaState rs) \<rparr>;
          row = (case findTransaction (t_id tx) (r_world rs) of
                   None \<Rightarrow> tx
                 | Some old \<Rightarrow>
                     tx\<lparr> t_reservedAmount := t_reservedAmount old,
                         t_reservationExpiry := t_reservationExpiry old,
                         t_sourceBalanceBefore := t_sourceBalanceBefore old,
                         t_sourceBalanceAfter := t_sourceBalanceAfter old,
                         t_destinationBalanceBefore := t_destinationBalanceBefore old,
                         t_destinationBalanceAfter := t_destinationBalanceAfter old \<rparr>)
      in rs\<lparr> r_transaction := tx, r_world := saveTransaction row (r_world rs) \<rparr>)"

definition updateSagaState :: "run \<Rightarrow> run" where
  "updateSagaState rs =
     (let sagaState = r_sagaState rs;
          tx = (r_transaction rs)\<lparr> t_sagaState := Some sagaState,
                                   t_retryCount := retryCount sagaState \<rparr>;
          tx1 = (case lastError sagaState of
                   None \<Rightarrow> tx
                 | Some e \<Rightarrow> tx\<lparr> t_errorDetails :=
                     Some \<lparr> ed_message = message e, ed_step = currentStep sagaState,
                            ed_errorCode = None \<rparr> \<rparr>)
      in saveEntity (rs\<lparr> r_transaction := tx1 \<rparr>))"

definition updateTransactionStatus :: "TransactionStatus \<Rightarrow> run \<Rightarrow> run" where
  "updateTransactionStatus status rs =
     (let tx = (r_transaction rs)\<lparr> t_status := status,
                                   t_processedAt := Some (now (r_world rs)) \<rparr>;
          tx1 = (if status = FAILED then tx\<lparr> t_failedAt := Some (now (r_world rs)) \<rparr> else tx)
      in saveEntity (rs\<lparr> r_transaction := tx1 \<rparr>))"

definition updateTransferState :: "TransferState \<Rightarrow> run \<Rightarrow> run" where
  "updateTransferState transferState rs =
     saveEntity (rs\<lparr> r_transaction := (r_transaction rs)\<lparr> t_transferState := Some transferState \<rparr> \<rparr>)"

text \<open>\<open>getTransferStateForStep\<close>: \<open>stateMap[stepIndex] || TransferState.INITIATED\<close>.\<close>

definition stateMap :: "TransferState list" where
  "stateMap = [TS_INITIATED, TS_VALIDATION_COMPLETE, TS_FUNDS_RESERVED,
               TS_DEBIT_COMPLETE, TS_CREDIT_COMPLETE]"

definition getTransferStateForStep :: "nat \<Rightarrow> TransferState" where
  "getTransferStateForStep stepIndex =
     (if stepIndex < length stateMap then stateMap ! stepIndex else TS_INITIATED)"

text \<open>One pass through the body of the loop of \<open>executeSaga\<close> at index \<open>i\<close>, and how the
  loop goes on after it: to the next index, to the same index again (\<open>i--; continue\<close>), or
  out of the loop with the step's error.\<close>

datatype outcome = Advance | Retry | Abort exn

definition stepBody :: "SagaStep list \<Rightarrow> nat \<Rightarrow> run \<Rightarrow> outcome \<times> run" where
  "stepBody steps i rs =
     (let step = steps ! i;
          rs1 = rs\<lparr> r_sagaState := (r_sagaState rs)\<lparr> currentStep := i \<rparr> \<rparr>
      in case nextFault (r_faults rs1) of (f, fs) \<Rightarrow>
         (case execute step f (r_context rs1) (r_world rs1) of (err, context1, w1) \<Rightarrow>
            let rs2 = rs1\<lparr> r_faults := fs, r_context := context1, r_world := w1 \<rparr>
            in (case err of
                  None \<Rightarrow>
                    let rs3 = rs2\<lparr> r_sagaState := (r_sagaState rs2)
                                \<lparr> completedSteps := completedSteps (r_sagaState rs2) @ [name step] \<rparr> \<rparr>
                    in (Advance, updateTransferState (getTransferStateForStep i) (updateSagaState rs3))
                | Some stepError \<Rightarrow>
                    let rs3 = rs2\<lparr> r_sagaState := (r_sagaState rs2)\<lparr> lastError := Some stepError \<rparr> \<rparr>
                    in if retryable step \<and> retryCount (r_sagaState rs3) < maxRetries step
                       then (Retry, updateSagaState
                               (rs3\<lparr> r_sagaState := (r_sagaState rs3)
                                   \<lparr> retryCount := retryCount (r_sagaState rs3) + 1 \<rparr> \<rparr>))
                       else (Abort stepError, rs3))))"

text \<open>The loop \<open>for (let i = 0; i < steps.length; i++)\<close> of \<open>executeSaga\<close>, from index
  \<open>i\<close> on. It ends: an index is repeated only after the retry count has grown, and only
  while the count is below the step's \<open>maxRetries\<close>.\<close>

function runSteps :: "SagaStep list \<Rightarrow> nat \<Rightarrow> run \<Rightarrow> (exn + unit) \<times> run" where
  "runSteps steps i rs =
     (if i < length steps
      then (case stepBody steps i rs of
              (Advance, rs1) \<Rightarrow> runSteps steps (i + 1) rs1
            | (Retry, rs1) \<Rightarrow> runSteps steps i rs1
            | (Abort stepError, rs1) \<Rightarrow> (Inl stepError, rs1))
      else (Inr (), rs))"
  by pat_completeness auto
termination
proof (relation "measures [\<lambda>(steps, i, rs). length steps - i,
                           \<lambda>(steps, i, rs). maxRetries (steps ! i) - retryCount (r_sagaState rs)]")
  show "wf (measures [\<lambda>(steps, i, rs). length steps - i,
                      \<lambda>(steps, i, rs). maxRetries (steps ! i) - retryCount (r_sagaState rs)])"
    by simp
next
  fix steps :: "SagaStep list" and i rs x1 x2
  assume "i < length steps" "(x1, x2) = stepBody steps i rs" "x1 = Advance"
  then show "((steps, i + 1, x2), steps, i, rs) \<in> measures [\<lambda>(steps, i, rs). length steps - i,
                      \<lambda>(steps, i, rs). maxRetries (steps ! i) - retryCount (r_sagaState rs)]"
    by auto
next
  fix steps :: "SagaStep list" and i rs x1 x2
  assume "i < length steps" "(x1, x2) = stepBody steps i rs" "x1 = Retry"
  then have "stepBody steps i rs = (Retry, x2)" by simp
  then have "retryCount (r_sagaState x2) = Suc (retryCount (r_sagaState rs))
             \<and> retryCount (r_sagaState rs) < maxRetries (steps ! i)"
    by (auto simp: stepBody_def updateSagaState_def saveEntity_def Let_def
        split: prod.splits option.splits if_splits)
  then show "((steps, i, x2), steps, i, rs) \<in> measures [\<lambda>(steps, i, rs). length steps - i,
                      \<lambda>(steps, i, rs). maxRetries (steps ! i) - retryCount (r_sagaState rs)]"
    by auto
qed

declare runSteps.simps [simp del]

text \<open>The loop of \<open>compensateSaga\<close> over the names of the completed steps: a name with no
  step is skipped, a compensation that throws is logged and the loop goes on.\<close>

fun compensateLoop :: "SagaStep list \<Rightarrow> string list \<Rightarrow> run \<Rightarrow> run" where
  "compensateLoop steps [] rs = rs"
| "compensateLoop steps (stepName # rest) rs =
     (case find (\<lambda>s. name s = stepName) steps of
        None \<Rightarrow> compensateLoop steps rest rs
      | Some step \<Rightarrow>
          (case nextFault (r_cfaults rs) of (f, fs) \<Rightarrow>
             (case compensate step f (r_context rs) (r_world rs) of (err, context1, w1) \<Rightarrow>
                let rs1 = rs\<lparr> r_cfaults := fs, r_context := context1, r_world := w1 \<rparr>
                in (case err of
                      None \<Rightarrow> compensateLoop steps rest
                        (rs1\<lparr> r_sagaState := (r_sagaState rs1)
                            \<lparr> compensatedSteps := compensatedSteps (r_sagaState rs1) @ [stepName] \<rparr> \<rparr>)
                    | Some compensationError \<Rightarrow> compensateLoop steps rest rs1))))"

text \<open>\<open>compensateSaga\<close>. \<open>Array.prototype.reverse\<close> reverses \<open>sagaState.completedSteps\<close>
  in place.\<close>

definition compensateSaga :: "SagaStep list \<Rightarrow> run \<Rightarrow> run" where
  "compensateSaga steps rs =
     (let rs1 = updateTransactionStatus FAILED rs;
          rs2 = updateTransferState TS_COMPENSATION_PENDING rs1;
          rs3 = rs2\<lparr> r_sagaState := (r_sagaState rs2)
                    \<lparr> completedSteps := rev (completedSteps (r_sagaState rs2)) \<rparr> \<rparr>;
          rs4 = compensateLoop steps (completedSteps (r_sagaState rs3)) rs3;
          rs5 = updateTransferState TS_COMPENSATED rs4
      in updateSagaState rs5)"

definition completeSaga :: "run \<Rightarrow> run" where
  "completeSaga rs =
     (let rs1 = updateTransactionStatus COMPLETED rs;
          rs2 = updateTransferState TS_COMPLETED rs1
      in saveEntity (rs2\<lparr> r_transaction :=
            (r_transaction rs2)\<lparr> t_completedAt := Some (now (r_world rs2)) \<rparr> \<rparr>))"

text \<open>\<open>executeSaga\<close>: the entity it returns on success, or the error it rethrows after
  compensation, and the run state it leaves.\<close>

definition executeSaga ::
  "Transaction \<Rightarrow> SagaStep list \<Rightarrow> SagaContext \<Rightarrow> fault list \<Rightarrow> fault list \<Rightarrow> world
     \<Rightarrow> (exn + Transaction) \<times> run" where
  "executeSaga transaction steps context faults cfaults w =
     (let sagaState = \<lparr> currentStep = 0, completedSteps = [], compensatedSteps = [],
                         lastError = None, retryCount = 0 \<rparr>;
          rs0 = \<lparr> r_world = w, r_context = context, r_transaction = transaction,
                   r_sagaState = sagaState, r_faults = faults, r_cfaults = cfaults \<rparr>
      in case runSteps steps 0 (updateSagaState rs0) of
           (Inr _, rs1) \<Rightarrow> (let rs2 = completeSaga rs1 in (Inr (r_transaction rs2), rs2))
         | (Inl e, rs1) \<Rightarrow> (Inl e, compensateSaga steps rs1))"

section \<open>Idempotency service: the gate\<close>

record IdempotencyRequest =
  q_key :: string
  q_requestHash :: string
  q_endpoint :: string
  q_method :: string
  q_userId :: string
  q_payload :: TransferDto

record IdempotencyResult =
  isNew :: bool
  existingResult :: "TransferResponseDto option"
  transaction :: "Transaction option"

text \<open>\<open>transactionRepository.findOne({ where: { idempotencyKey }, order: { createdAt:
  'DESC' } })\<close>; the newest row is the first of the list.\<close>

definition findByIdempotencyKey :: "string \<Rightarrow> world \<Rightarrow> Transaction option" where
  "findByIdempotencyKey k w = find (\<lambda>t. t_idempotencyKey t = Some k) (transactions w)"

text \<open>\<open>generateIdempotencyKey\<close>: the digest is taken over the time and a random string, so
  it is an input here.\<close>

definition generateIdempotencyKey :: "string \<Rightarrow> string" where
  "generateIdempotencyKey digest = ''auto_'' @ digest"

definition storeResult :: "string \<Rightarrow> TransferResponseDto \<Rightarrow> world \<Rightarrow> world" where
  "storeResult k result w =
     w\<lparr> resultCache := (resultCache w)(k \<mapsto> result),
        requestCache := (requestCache w)(k \<mapsto> now w) \<rparr>"

definition storeFailure :: "string \<Rightarrow> exn \<Rightarrow> world \<Rightarrow> world" where
  "storeFailure k error w =
     w\<lparr> errorCache := (errorCache w)(k \<mapsto>
          \<lparr> e_error = (if message error = [] then ''Unknown error'' else message error),
            e_timestamp = now w \<rparr>) \<rparr>"

definition isCompleted :: "Transaction \<Rightarrow> bool" where
  "isCompleted t = (t_status t = COMPLETED)"

definition reconstructResultFromTransaction :: "Transaction \<Rightarrow> TransferResponseDto option" where
  "reconstructResultFromTransaction t =
     (if \<not> isCompleted t then None
      else Some \<lparr> r_id = t_id t, r_amount = t_amount t,
                  r_sourceWalletId = t_sourceWalletId t,
                  r_destinationWalletId = t_destinationWalletId t,
                  r_description = t_description t, r_status = t_status t,
                  r_transferState = t_transferState t \<rparr>)"

definition nonRetryableErrors :: "string list" where
  "nonRetryableErrors = [''insufficient_balance'', ''invalid_wallet'', ''limit_exceeded'',
                         ''currency_mismatch'']"

definition canRetryFailedTransaction :: "Transaction \<Rightarrow> bool" where
  "canRetryFailedTransaction t =
     (if t_retryCount t \<ge> 3 then False
      else case t_errorDetails t of
        None \<Rightarrow> True
      | Some details \<Rightarrow>
          (case ed_errorCode details of
             None \<Rightarrow> True
           | Some code \<Rightarrow> \<not> (code \<noteq> [] \<and> List.member nonRetryableErrors code)))"

definition isTransactionInProgress :: "Transaction \<Rightarrow> bool" where
  "isTransactionInProgress t = (t_status t = PENDING \<or> t_status t = PROCESSING)"

text \<open>\<open>handleExistingTransaction\<close> of the idempotency service.\<close>

definition idempotency_handleExistingTransaction ::
  "Transaction \<Rightarrow> string \<Rightarrow> world \<Rightarrow> IdempotencyResult \<times> world" where
  "idempotency_handleExistingTransaction t cacheKey w =
     (case t_status t of
        COMPLETED \<Rightarrow>
          (case resultCache w cacheKey of
             Some cachedResult \<Rightarrow>
               (\<lparr> isNew = False, existingResult = Some cachedResult, transaction = None \<rparr>, w)
           | None \<Rightarrow>
               (case reconstructResultFromTransaction t of
                  Some result \<Rightarrow>
                    (\<lparr> isNew = False, existingResult = Some result, transaction = None \<rparr>,
                     storeResult (case t_idempotencyKey t of Some k \<Rightarrow> k | None \<Rightarrow> ''null'')
                       result w)
                | None \<Rightarrow> (\<lparr> isNew = True, existingResult = None, transaction = None \<rparr>, w)))
      | PROCESSING \<Rightarrow> (\<lparr> isNew = False, existingResult = None, transaction = Some t \<rparr>, w)
      | PENDING \<Rightarrow> (\<lparr> isNew = False, existingResult = None, transaction = Some t \<rparr>, w)
      | FAILED \<Rightarrow>
          (if canRetryFailedTransaction t
           then (\<lparr> isNew = True, existingResult = None, transaction = None \<rparr>, w)
           else (\<lparr> isNew = False, existingResult = None, transaction = Some t \<rparr>, w))
      | CANCELLED \<Rightarrow>
          (if canRetryFailedTransaction t
           then (\<lparr> isNew = True, existingResult = None, transaction = None \<rparr>, w)
           else (\<lparr> isNew = False, existingResult = None, transaction = Some t \<rparr>, w))
      | COMPENSATED \<Rightarrow> (\<lparr> isNew = False, existingResult = None, transaction = Some t \<rparr>, w))"

text \<open>\<open>validateRequestUniqueness\<close>: \<open>timeDiffMinutes < 5\<close> is, in milliseconds,
  \<open>now - createdAt < 5 * 60 * 1000\<close>.\<close>

definition validateRequestUniqueness ::
  "IdempotencyRequest \<Rightarrow> string \<Rightarrow> world \<Rightarrow> exn option \<times> world" where
  "validateRequestUniqueness request k w =
     (let conflict =
            (case requestHashCache w (q_requestHash request) of
               None \<Rightarrow> False
             | Some parsedData \<Rightarrow>
                 if h_idempotencyKey parsedData \<noteq> k \<and> now w - h_createdAt parsedData < 5 * 60 * 1000
                 then (case findByIdempotencyKey (h_idempotencyKey parsedData) w of
                         None \<Rightarrow> False
                       | Some originalTransaction \<Rightarrow> isTransactionInProgress originalTransaction)
                 else False)
      in if conflict
         then (Some (ConflictException ''A similar transfer is already in progress''), w)
         else (None, w\<lparr> requestHashCache := (requestHashCache w)(q_requestHash request \<mapsto>
                 \<lparr> h_idempotencyKey = k, h_createdAt = now w,
                   h_endpoint = q_endpoint request, h_method = q_method request \<rparr>) \<rparr>))"

definition checkIdempotency ::
  "string \<Rightarrow> IdempotencyRequest \<Rightarrow> world \<Rightarrow> (exn + IdempotencyResult) \<times> world" where
  "checkIdempotency k request w =
     (case resultCache w k of
        Some cachedResult \<Rightarrow>
          (Inr \<lparr> isNew = False, existingResult = Some cachedResult, transaction = None \<rparr>, w)
      | None \<Rightarrow>
          (case findByIdempotencyKey k w of
             Some existingTransaction \<Rightarrow>
               (case idempotency_handleExistingTransaction existingTransaction k w of
                  (res, w1) \<Rightarrow> (Inr res, w1))
           | None \<Rightarrow>
               let isExplicitKey = (take 5 k \<noteq> ''auto_'')
               in if isExplicitKey
                  then (case validateRequestUniqueness request k w of
                          (Some e, w1) \<Rightarrow> (Inl e, w1)
                        | (None, w1) \<Rightarrow>
                            (Inr \<lparr> isNew = True, existingResult = None, transaction = None \<rparr>, w1))
                  else (Inr \<lparr> isNew = True, existingResult = None, transaction = None \<rparr>, w)))"

section \<open>Transfer service\<close>

definition mapToTransferResponseDto :: "Transaction \<Rightarrow> TransferResponseDto" where
  "mapToTransferResponseDto t =
     \<lparr> r_id = t_id t, r_amount = t_amount t, r_sourceWalletId = t_sourceWalletId t,
       r_destinationWalletId = t_destinationWalletId t, r_description = t_description t,
       r_status = t_status t, r_transferState = t_transferState t \<rparr>"

text \<open>\<open>handleExistingTransaction\<close> of the transfer service.\<close>

definition transfer_handleExistingTransaction :: "Transaction \<Rightarrow> exn + TransferResponseDto" where
  "transfer_handleExistingTransaction t =
     (case t_status t of
        COMPLETED \<Rightarrow> Inr (mapToTransferResponseDto t)
      | PROCESSING \<Rightarrow> Inl (ConflictException ''Transfer is already in progress'')
      | PENDING \<Rightarrow> Inl (ConflictException ''Transfer is already in progress'')
      | FAILED \<Rightarrow> Inl (BadRequestException ''Transfer has failed'')
      | CANCELLED \<Rightarrow> Inl (BadRequestException ''Transfer has failed'')
      | COMPENSATED \<Rightarrow> Inl (BadRequestException ''Transfer has unknown status''))"

definition validateTransferRequest ::
  "string \<Rightarrow> string \<Rightarrow> int \<Rightarrow> User \<Rightarrow> world \<Rightarrow> exn option \<times> world" where
  "validateTransferRequest sourceWalletId destWalletId amt user w =
     (if amt \<le> 0 then (Some (BadRequestException ''Transfer amount must be positive''), w)
      else if sourceWalletId = destWalletId
      then (Some (BadRequestException ''Cannot transfer to the same wallet''), w)
      else case (case findActiveWallet sourceWalletId w of
                   None \<Rightarrow> None
                 | Some x \<Rightarrow> if w_userId x = u_id user then Some x else None) of
        None \<Rightarrow> (Some (NotFoundException ''Source wallet not found or not accessible''), w)
      | Some sourceWallet \<Rightarrow>
          (case findActiveWallet destWalletId w of
             None \<Rightarrow> (Some (NotFoundException ''Destination wallet not found or inactive''), w)
           | Some destinationWallet \<Rightarrow>
               if w_currency sourceWallet \<noteq> w_currency destinationWallet
               then (Some (BadRequestException ''Currency mismatch between wallets''), w)
               else if w_balance sourceWallet < amt
               then (Some (BadRequestException ''Insufficient balance''), w)
               else validateTransferLimits (u_id user) amt w))"

text \<open>\<open>createTransactionRecord\<close>. The table has a unique index on \<open>idempotencyKey\<close>: the
  insert of a second row with a key fails in the store.\<close>

definition createTransactionRecord ::
  "string \<Rightarrow> string \<Rightarrow> int \<Rightarrow> string option \<Rightarrow> User \<Rightarrow> string \<Rightarrow> string option \<Rightarrow> world
     \<Rightarrow> (exn + Transaction) \<times> world" where
  "createTransactionRecord sourceWalletId destWalletId amt descr user k extRef w =
     (let tx = \<lparr> t_id = nextTransactionId w, t_amount = amt, t_type = TRANSFER,
                  t_status = PENDING, t_transferState = Some TS_INITIATED,
                  t_description = (case descr of
                                     None \<Rightarrow> ''P2P Transfer''
                                   | Some d \<Rightarrow> if d = [] then ''P2P Transfer'' else d),
                  t_sourceWalletId = Some sourceWalletId,
                  t_destinationWalletId = Some destWalletId,
                  t_idempotencyKey = Some k, t_externalReferenceId = extRef,
                  t_retryCount = 0, t_processedAt = None, t_completedAt = None,
                  t_failedAt = None, t_errorDetails = None, t_sagaState = None,
                  t_reservedAmount = None, t_reservationExpiry = None,
                  t_sourceBalanceBefore = None, t_sourceBalanceAfter = None,
                  t_destinationBalanceBefore = None, t_destinationBalanceAfter = None \<rparr>
      in case findByIdempotencyKey k w of
           Some _ \<Rightarrow> (Inl (Error ''duplicate key value violates unique constraint''), w)
         | None \<Rightarrow> (Inr tx, w\<lparr> transactions := tx # transactions w,
                                nextTransactionId := nextTransactionId w + 1 \<rparr>))"

text \<open>What the platform and the environment give to one call of \<open>transferFunds\<close>.\<close>

record env =
  md5 :: "string \<Rightarrow> string"
  stringify :: "RequestData \<Rightarrow> string"
  autoKeyDigest :: string
  faults :: "fault list"
  cfaults :: "fault list"

definition executeTransferSaga ::
  "env \<Rightarrow> string \<Rightarrow> string \<Rightarrow> int \<Rightarrow> string option \<Rightarrow> User \<Rightarrow> string \<Rightarrow> string option \<Rightarrow> world
     \<Rightarrow> (exn + TransferResponseDto) \<times> world" where
  "executeTransferSaga ev sourceWalletId destWalletId amt descr user k extRef w =
     (case createTransactionRecord sourceWalletId destWalletId amt descr user k extRef w of
        (Inl e, w1) \<Rightarrow> (Inl e, w1)
      | (Inr tx, w1) \<Rightarrow>
          let sagaContext = \<lparr> c_transactionId = t_id tx, c_sourceWalletId = sourceWalletId,
                               c_destinationWalletId = destWalletId, c_amount = amt,
                               c_userId = u_id user, c_idempotencyKey = k,
                               c_externalReferenceId = extRef,
                               c_sourceBalanceBefore = None,
                               c_destinationBalanceBefore = None \<rparr>
          in case executeSaga tx createTransferSagaSteps sagaContext (faults ev) (cfaults ev) w1 of
               (Inl e, rs) \<Rightarrow> (Inl e, r_world rs)
             | (Inr completedTransaction, rs) \<Rightarrow>
                 (Inr (mapToTransferResponseDto completedTransaction),
                  updateTransferLimitsUsage (u_id user) amt (r_world rs)))"

text \<open>The first two statements of \<open>transferFunds\<close>: the key, given or generated
  (\<open>transferDto.idempotencyKey || generateIdempotencyKey(...)\<close>, so an empty key counts as
  none), and the idempotency request.\<close>

definition idempotencyKeyOf :: "env \<Rightarrow> TransferDto \<Rightarrow> string" where
  "idempotencyKeyOf ev transferDto =
     (case idempotencyKey transferDto of
        None \<Rightarrow> generateIdempotencyKey (autoKeyDigest ev)
      | Some given \<Rightarrow> if given = [] then generateIdempotencyKey (autoKeyDigest ev) else given)"

definition idempotencyRequestOf :: "env \<Rightarrow> string \<Rightarrow> User \<Rightarrow> TransferDto \<Rightarrow> IdempotencyRequest" where
  "idempotencyRequestOf ev sourceWalletId user transferDto =
     (let endpoint = ''/wallets/'' @ sourceWalletId @ ''/transfer''
      in \<lparr> q_key = idempotencyKeyOf ev transferDto,
           q_requestHash = createRequestHash (md5 ev) (stringify ev) ''POST'' endpoint
                             transferDto (u_id user),
           q_endpoint = endpoint, q_method = ''POST'', q_userId = u_id user,
           q_payload = transferDto \<rparr>)"

definition transferFunds ::
  "env \<Rightarrow> string \<Rightarrow> User \<Rightarrow> TransferDto \<Rightarrow> world \<Rightarrow> (exn + TransferResponseDto) \<times> world" where
  "transferFunds ev sourceWalletId user transferDto w =
     (let k = idempotencyKeyOf ev transferDto;
          idempotencyRequest = idempotencyRequestOf ev sourceWalletId user transferDto
      in case checkIdempotency k idempotencyRequest w of
           (Inl e, w1) \<Rightarrow> (Inl e, w1)
         | (Inr idempotencyResult, w1) \<Rightarrow>
             (case (if isNew idempotencyResult then None
                    else case existingResult idempotencyResult of
                           Some cached \<Rightarrow> Some (Inr cached)
                         | None \<Rightarrow> map_option transfer_handleExistingTransaction
                                     (transaction idempotencyResult)) of
                Some early \<Rightarrow> (early, w1)
              | None \<Rightarrow>
                  (case validateTransferRequest sourceWalletId (destinationWalletId transferDto)
                          (amount transferDto) user w1 of
                     (Some e, w2) \<Rightarrow> (Inl e, w2)
                   | (None, w2) \<Rightarrow>
                       (case executeTransferSaga ev sourceWalletId (destinationWalletId transferDto)
                               (amount transferDto) (description transferDto) user k
                               (externalReferenceId transferDto) w2 of
                          (Inr result, w3) \<Rightarrow> (Inr result, storeResult k result w3)
                        | (Inl error, w3) \<Rightarrow> (Inl error, storeFailure k error w3)))))"

section \<open>Notions for the proofs\<close>

text \<open>The wallet table after the balance expression has run on one row.\<close>

definition adjusted :: "string \<Rightarrow> int \<Rightarrow> (string \<rightharpoonup> Wallet) \<Rightarrow> (string \<rightharpoonup> Wallet)" where
  "adjusted walletId d m =
     (case m walletId of
        None \<Rightarrow> m
      | Some x \<Rightarrow> m(walletId \<mapsto> x\<lparr> w_balance := w_balance x + d \<rparr>))"

text \<open>What a run state shows of itself between two passes of the loop: the saga state, the
  faults still to come, the context, the wallet table, and that the coordinator's entity
  is the row the context names and the row is there.\<close>

definition runAt :: "run \<Rightarrow> SagaState \<Rightarrow> fault list \<Rightarrow> fault list \<Rightarrow> SagaContext \<Rightarrow> (string \<rightharpoonup> Wallet) \<Rightarrow> bool" where
  "runAt rs st fs cfs c W \<longleftrightarrow>
     r_sagaState rs = st \<and> r_faults rs = fs \<and> r_cfaults rs = cfs \<and> r_context rs = c \<and>
     wallets (r_world rs) = W \<and> t_id (r_transaction rs) = c_transactionId c \<and>
     findTransaction (c_transactionId c) (r_world rs) \<noteq> None"



text \<open>
  The wallet table along a transfer saga: a step changes the context only in its balance
  snapshots; \<open>walletsStep\<close> is what forward step \<open>i\<close> does to the table when it
  completes, \<open>walletsAfter\<close> the table once the first \<open>i\<close> steps have completed, and
  \<open>compensationWallets\<close> what the compensation of the step named \<open>n\<close> does to it.
\<close>

definition sameTransfer :: "SagaContext \<Rightarrow> SagaContext \<Rightarrow> bool" where
  "sameTransfer c c' \<longleftrightarrow>
     c_sourceWalletId c' = c_sourceWalletId c \<and>
     c_destinationWalletId c' = c_destinationWalletId c \<and> c_amount c' = c_amount c"





section \<open>Scenarios\<close>

text \<open>The worlds of the specification's scenarios: S1 has a source wallet \<open>A\<close> holding
  1000.00 USD and a destination wallet \<open>B\<close> holding nothing, and a transfer of 150.00
  under the key \<open>abc\<close>.\<close>

definition wallets_S1 :: "string \<rightharpoonup> Wallet" where
  "wallets_S1 =
     [''A'' \<mapsto> \<lparr> w_balance = 100000, w_currency = ''USD'', w_isActive = True, w_userId = ''u1'' \<rparr>,
      ''B'' \<mapsto> \<lparr> w_balance = 0, w_currency = ''USD'', w_isActive = True, w_userId = ''u2'' \<rparr>]"

definition limit_S1 :: TransferLimit where
  "limit_S1 = \<lparr> l_dailyLimit = 1000000, l_monthlyLimit = 10000000, l_dailyUsed = 0,
                l_monthlyUsed = 0, l_lastDailyReset = 0, l_lastMonthlyReset = 0 \<rparr>"

definition world_S1 :: world where
  "world_S1 = \<lparr> wallets = wallets_S1, transactions = [],
                transferLimits = [''u1'' \<mapsto> limit_S1], nextTransactionId = 1,
                resultCache = Map.empty, requestCache = Map.empty, errorCache = Map.empty,
                requestHashCache = Map.empty, balanceCache = Map.empty,
                walletLocks = Map.empty, limitUsageCache = Map.empty,
                now = 0, today = 0, currentMonth = 0 \<rparr>"

definition user_S1 :: User where
  "user_S1 = \<lparr> u_id = ''u1'', u_email = ''u1@example.com'' \<rparr>"

definition transfer_S1 :: TransferDto where
  "transfer_S1 = \<lparr> destinationWalletId = ''B'', amount = 15000, description = Some ''dinner'',
                   idempotencyKey = Some ''abc'', externalReferenceId = None \<rparr>"

definition env_S1 :: env where
  "env_S1 = \<lparr> md5 = (\<lambda>s. s),
              stringify = (\<lambda>d. rd_method d @ rd_endpoint d @ rd_userId d
                                 @ cp_destinationWalletId (rd_payload d)),
              autoKeyDigest = ''0f'', faults = [], cfaults = [] \<rparr>"

text \<open>S2: the source holds 50.00, the transfer asks for 150.00.\<close>

definition world_S2 :: world where
  "world_S2 = world_S1\<lparr> wallets :=
     [''A'' \<mapsto> \<lparr> w_balance = 5000, w_currency = ''USD'', w_isActive = True, w_userId = ''u1'' \<rparr>,
      ''B'' \<mapsto> \<lparr> w_balance = 0, w_currency = ''USD'', w_isActive = True, w_userId = ''u2'' \<rparr>] \<rparr>"



text \<open>S3: the world after S1 has completed, with the first response still cached.\<close>

definition completed_S3 :: Transaction where
  "completed_S3 =
     \<lparr> t_id = 1, t_amount = 15000, t_type = TRANSFER, t_status = COMPLETED,
       t_transferState = Some TS_COMPLETED, t_description = ''dinner'',
       t_sourceWalletId = Some ''A'', t_destinationWalletId = Some ''B'',
       t_idempotencyKey = Some ''abc'', t_externalReferenceId = None, t_retryCount = 0,
       t_processedAt = Some 0, t_completedAt = Some 0, t_failedAt = None,
       t_errorDetails = None, t_sagaState = None, t_reservedAmount = Some 15000,
       t_reservationExpiry = Some 1800000, t_sourceBalanceBefore = Some 100000,
       t_sourceBalanceAfter = Some 85000, t_destinationBalanceBefore = Some 0,
       t_destinationBalanceAfter = Some 15000 \<rparr>"

definition world_S3 :: world where
  "world_S3 = world_S1\<lparr> wallets :=
       [''A'' \<mapsto> \<lparr> w_balance = 85000, w_currency = ''USD'', w_isActive = True, w_userId = ''u1'' \<rparr>,
        ''B'' \<mapsto> \<lparr> w_balance = 15000, w_currency = ''USD'', w_isActive = True, w_userId = ''u2'' \<rparr>],
     transactions := [completed_S3], nextTransactionId := 2,
     resultCache := [''abc'' \<mapsto> mapToTransferResponseDto completed_S3] \<rparr>"

text \<open>The saga of S1 at the entry of its loop: the row as \<open>createTransactionRecord\<close> has
  inserted it, the context as \<open>executeTransferSaga\<close> builds it, and the run state after the
  first \<open>updateSagaState\<close> of \<open>executeSaga\<close>, for given lists of faults.\<close>

definition transaction_S1 :: Transaction where
  "transaction_S1 =
     \<lparr> t_id = 1, t_amount = 15000, t_type = TRANSFER, t_status = PENDING,
       t_transferState = Some TS_INITIATED, t_description = ''dinner'',
       t_sourceWalletId = Some ''A'', t_destinationWalletId = Some ''B'',
       t_idempotencyKey = Some ''abc'', t_externalReferenceId = None, t_retryCount = 0,
       t_processedAt = None, t_completedAt = None, t_failedAt = None,
       t_errorDetails = None, t_sagaState = None, t_reservedAmount = None,
       t_reservationExpiry = None, t_sourceBalanceBefore = None,
       t_sourceBalanceAfter = None, t_destinationBalanceBefore = None,
       t_destinationBalanceAfter = None \<rparr>"

definition context_S1 :: SagaContext where
  "context_S1 =
     \<lparr> c_transactionId = 1, c_sourceWalletId = ''A'', c_destinationWalletId = ''B'',
       c_amount = 15000, c_userId = ''u1'', c_idempotencyKey = ''abc'',
       c_externalReferenceId = None, c_sourceBalanceBefore = None,
       c_destinationBalanceBefore = None \<rparr>"

definition started_S1 :: world where
  "started_S1 = world_S1\<lparr> transactions := [transaction_S1], nextTransactionId := 2 \<rparr>"

definition sagaState0 :: SagaState where
  "sagaState0 = \<lparr> currentStep = 0, completedSteps = [], compensatedSteps = [],
                   lastError = None, retryCount = 0 \<rparr>"

definition run_S1 :: "fault list \<Rightarrow> fault list \<Rightarrow> run" where
  "run_S1 fs cfs =
     updateSagaState \<lparr> r_world = started_S1, r_context = context_S1,
                       r_transaction = transaction_S1, r_sagaState = sagaState0,
                       r_faults = fs, r_cfaults = cfs \<rparr>"

text \<open>S1 at the entry of the saga, with the lease of the source wallet held by another
  writer.\<close>

definition locked_S1 :: world where
  "locked_S1 = started_S1\<lparr> walletLocks := [''A'' \<mapsto> ''1700000000000_0.42''] \<rparr>"

text \<open>The store is down for the first two attempts of \<open>validate_transfer\<close> and for the
  first attempt of \<open>reserve_funds\<close>, and up from then on.\<close>

definition faults_C7 :: "fault list" where
  "faults_C7 = [StoreDown, StoreDown, NoFault, StoreDown, NoFault, NoFault, NoFault, NoFault]"




section \<open>Frame lemmas\<close>

lemma saveEntity_sagaState [simp]: "r_sagaState (saveEntity rs) = r_sagaState rs"
  by (simp add: saveEntity_def Let_def)

lemma updateSagaState_sagaState [simp]: "r_sagaState (updateSagaState rs) = r_sagaState rs"
  by (simp add: updateSagaState_def Let_def)

lemma wallets_saveTransaction [simp]: "wallets (saveTransaction tx w) = wallets w"
  by (simp add: saveTransaction_def split: option.splits)

lemma find_map_replace:
  "find (\<lambda>t. t_id t = k) (map (\<lambda>t. if t_id t = t_id tx then tx else t) ts) =
     (if k = t_id tx then (if find (\<lambda>t. t_id t = k) ts = None then None else Some tx)
      else find (\<lambda>t. t_id t = k) ts)"
  by (induction ts) auto

lemma findTransaction_saveTransaction [simp]:
  "findTransaction k (saveTransaction tx w) = (if k = t_id tx then Some tx else findTransaction k w)"
  by (auto simp: saveTransaction_def findTransaction_def find_map_replace split: option.splits)

lemma wallets_adjustBalance [simp]:
  "wallets (adjustBalance i d w) = adjusted i d (wallets w)"
  by (simp add: adjustBalance_def adjusted_def split: option.splits)

lemma findTransaction_adjustBalance [simp]:
  "findTransaction k (adjustBalance i d w) = findTransaction k w"
  by (simp add: adjustBalance_def findTransaction_def split: option.splits)

lemma wallets_setWalletBalanceWithVersion [simp]:
  "wallets (setWalletBalanceWithVersion i b v w) = wallets w"
  by (simp add: setWalletBalanceWithVersion_def)

lemma findTransaction_setWalletBalanceWithVersion [simp]:
  "findTransaction k (setWalletBalanceWithVersion i b v w) = findTransaction k w"
  by (simp add: setWalletBalanceWithVersion_def findTransaction_def)

lemma adjusted_adjusted [simp]: "adjusted i a (adjusted i b m) = adjusted i (a + b) m"
  by (auto simp: adjusted_def fun_eq_iff split: option.splits)

lemma adjusted_zero [simp]: "adjusted i 0 m = m"
  by (auto simp: adjusted_def fun_eq_iff split: option.splits)

lemma saveEntity_frame [simp]:
  "r_context (saveEntity rs) = r_context rs"
  "r_faults (saveEntity rs) = r_faults rs"
  "r_cfaults (saveEntity rs) = r_cfaults rs"
  "wallets (r_world (saveEntity rs)) = wallets (r_world rs)"
  "t_id (r_transaction (saveEntity rs)) = t_id (r_transaction rs)"
  "t_status (r_transaction (saveEntity rs)) = t_status (r_transaction rs)"
  "t_transferState (r_transaction (saveEntity rs)) = t_transferState (r_transaction rs)"
  by (simp_all add: saveEntity_def Let_def split: option.splits)

lemma saveEntity_row [simp]:
  "findTransaction k (r_world (saveEntity rs)) = None \<longleftrightarrow>
     k \<noteq> t_id (r_transaction rs) \<and> findTransaction k (r_world rs) = None"
  by (simp add: saveEntity_def Let_def split: option.splits)


lemma updateSagaState_frame [simp]:
  "r_context (updateSagaState rs) = r_context rs"
  "r_faults (updateSagaState rs) = r_faults rs"
  "r_cfaults (updateSagaState rs) = r_cfaults rs"
  "wallets (r_world (updateSagaState rs)) = wallets (r_world rs)"
  "t_id (r_transaction (updateSagaState rs)) = t_id (r_transaction rs)"
  "t_status (r_transaction (updateSagaState rs)) = t_status (r_transaction rs)"
  "t_transferState (r_transaction (updateSagaState rs)) = t_transferState (r_transaction rs)"
  by (simp_all add: updateSagaState_def Let_def split: option.splits)

lemma updateSagaState_row [simp]:
  "findTransaction k (r_world (updateSagaState rs)) = None \<longleftrightarrow>
     k \<noteq> t_id (r_transaction rs) \<and> findTransaction k (r_world rs) = None"
  by (simp add: updateSagaState_def Let_def split: option.splits)

lemma updateTransferState_frame [simp]:
  "r_sagaState (updateTransferState ts rs) = r_sagaState rs"
  "r_context (updateTransferState ts rs) = r_context rs"
  "r_faults (updateTransferState ts rs) = r_faults rs"
  "r_cfaults (updateTransferState ts rs) = r_cfaults rs"
  "wallets (r_world (updateTransferState ts rs)) = wallets (r_world rs)"
  "t_id (r_transaction (updateTransferState ts rs)) = t_id (r_transaction rs)"
  "t_status (r_transaction (updateTransferState ts rs)) = t_status (r_transaction rs)"
  "t_transferState (r_transaction (updateTransferState ts rs)) = Some ts"
  by (simp_all add: updateTransferState_def)

lemma updateTransferState_row [simp]:
  "findTransaction k (r_world (updateTransferState ts rs)) = None \<longleftrightarrow>
     k \<noteq> t_id (r_transaction rs) \<and> findTransaction k (r_world rs) = None"
  by (simp add: updateTransferState_def)

lemma updateTransactionStatus_frame [simp]:
  "r_sagaState (updateTransactionStatus s rs) = r_sagaState rs"
  "r_context (updateTransactionStatus s rs) = r_context rs"
  "r_faults (updateTransactionStatus s rs) = r_faults rs"
  "r_cfaults (updateTransactionStatus s rs) = r_cfaults rs"
  "wallets (r_world (updateTransactionStatus s rs)) = wallets (r_world rs)"
  "t_id (r_transaction (updateTransactionStatus s rs)) = t_id (r_transaction rs)"
  "t_status (r_transaction (updateTransactionStatus s rs)) = s"
  "t_transferState (r_transaction (updateTransactionStatus s rs)) = t_transferState (r_transaction rs)"
  by (simp_all add: updateTransactionStatus_def Let_def)

lemma updateTransactionStatus_row [simp]:
  "findTransaction k (r_world (updateTransactionStatus s rs)) = None \<longleftrightarrow>
     k \<noteq> t_id (r_transaction rs) \<and> findTransaction k (r_world rs) = None"
  by (simp add: updateTransactionStatus_def Let_def)

section \<open>One pass of the loop, and the loop\<close>

lemma stepBody_ok:
  assumes "nextFault (r_faults rs) = (f, fs)"
      and "execute (steps ! i) f (r_context rs) (r_world rs) = (None, c', w')"
  shows "fst (stepBody steps i rs) = Advance"
    and "r_sagaState (snd (stepBody steps i rs)) =
           (r_sagaState rs)\<lparr> currentStep := i,
              completedSteps := completedSteps (r_sagaState rs) @ [name (steps ! i)] \<rparr>"
    and "r_faults (snd (stepBody steps i rs)) = fs"
    and "r_cfaults (snd (stepBody steps i rs)) = r_cfaults rs"
    and "r_context (snd (stepBody steps i rs)) = c'"
    and "wallets (r_world (snd (stepBody steps i rs))) = wallets w'"
    and "t_id (r_transaction (snd (stepBody steps i rs))) = t_id (r_transaction rs)"
    and "t_status (r_transaction (snd (stepBody steps i rs))) = t_status (r_transaction rs)"
    and "t_transferState (r_transaction (snd (stepBody steps i rs))) = Some (getTransferStateForStep i)"
    and "findTransaction k (r_world (snd (stepBody steps i rs))) = None \<longleftrightarrow>
           k \<noteq> t_id (r_transaction rs) \<and> findTransaction k w' = None"
  using assms by (simp_all add: stepBody_def Let_def)

lemma stepBody_err:
  assumes "nextFault (r_faults rs) = (f, fs)"
      and "execute (steps ! i) f (r_context rs) (r_world rs) = (Some e, c', w')"
  shows "fst (stepBody steps i rs) =
           (if retryable (steps ! i) \<and> retryCount (r_sagaState rs) < maxRetries (steps ! i)
            then Retry else Abort e)"
    and "r_sagaState (snd (stepBody steps i rs)) =
           (r_sagaState rs)\<lparr> currentStep := i, lastError := Some e,
              retryCount := (if retryable (steps ! i) \<and> retryCount (r_sagaState rs) < maxRetries (steps ! i)
                             then retryCount (r_sagaState rs) + 1 else retryCount (r_sagaState rs)) \<rparr>"
    and "r_faults (snd (stepBody steps i rs)) = fs"
    and "r_cfaults (snd (stepBody steps i rs)) = r_cfaults rs"
    and "r_context (snd (stepBody steps i rs)) = c'"
    and "wallets (r_world (snd (stepBody steps i rs))) = wallets w'"
    and "t_id (r_transaction (snd (stepBody steps i rs))) = t_id (r_transaction rs)"
    and "t_status (r_transaction (snd (stepBody steps i rs))) = t_status (r_transaction rs)"
    and "t_transferState (r_transaction (snd (stepBody steps i rs))) = t_transferState (r_transaction rs)"
    and "findTransaction k (r_world (snd (stepBody steps i rs))) = None \<Longrightarrow> findTransaction k w' = None"
  using assms by (simp_all add: stepBody_def Let_def split: if_splits)

lemma runSteps_Advance:
  "i < length steps \<Longrightarrow> fst (stepBody steps i rs) = Advance \<Longrightarrow>
   runSteps steps i rs = runSteps steps (Suc i) (snd (stepBody steps i rs))"
  by (subst runSteps.simps) (cases "stepBody steps i rs", simp)

lemma runSteps_Retry:
  "i < length steps \<Longrightarrow> fst (stepBody steps i rs) = Retry \<Longrightarrow>
   runSteps steps i rs = runSteps steps i (snd (stepBody steps i rs))"
  by (subst runSteps.simps) (cases "stepBody steps i rs", simp)

lemma runSteps_Abort:
  "i < length steps \<Longrightarrow> fst (stepBody steps i rs) = Abort e \<Longrightarrow>
   runSteps steps i rs = (Inl e, snd (stepBody steps i rs))"
  by (subst runSteps.simps) (cases "stepBody steps i rs", simp)


lemma length_steps [simp]: "length createTransferSagaSteps = 5"
  by (simp add: createTransferSagaSteps_def)

lemma execute_StoreDown:
  "i < 5 \<Longrightarrow> execute (createTransferSagaSteps ! i) StoreDown c w = (Some storeError, c, w)"
  by (auto simp: createTransferSagaSteps_def less_Suc_eq numeral_eq_Suc validateTransfer_def
      reserveFunds_def debitSourceWallet_def creditDestinationWallet_def finalizeTransfer_def)

lemma link_store_down:
  assumes "runAt rs st (StoreDown # fs) cfs c W" and "i < 5"
  shows "fst (stepBody createTransferSagaSteps i rs) =
           (if retryable (createTransferSagaSteps ! i) \<and> retryCount st < maxRetries (createTransferSagaSteps ! i)
            then Retry else Abort storeError)"
    and "runAt (snd (stepBody createTransferSagaSteps i rs))
           (st\<lparr> currentStep := i, lastError := Some storeError,
               retryCount := (if retryable (createTransferSagaSteps ! i) \<and> retryCount st < maxRetries (createTransferSagaSteps ! i)
                              then retryCount st + 1 else retryCount st) \<rparr>) fs cfs c W"
proof -
  have nf: "nextFault (r_faults rs) = (StoreDown, fs)"
    using assms(1) by (simp add: runAt_def)
  have ex: "execute (createTransferSagaSteps ! i) StoreDown (r_context rs) (r_world rs)
              = (Some storeError, r_context rs, r_world rs)"
    using assms(2) by (rule execute_StoreDown)
  note sb = stepBody_err [OF nf ex]
  show "fst (stepBody createTransferSagaSteps i rs) =
           (if retryable (createTransferSagaSteps ! i) \<and> retryCount st < maxRetries (createTransferSagaSteps ! i)
            then Retry else Abort storeError)"
    using sb(1) assms(1) by (simp add: runAt_def)
  have "findTransaction (c_transactionId c) (r_world (snd (stepBody createTransferSagaSteps i rs))) \<noteq> None"
  proof
    assume "findTransaction (c_transactionId c) (r_world (snd (stepBody createTransferSagaSteps i rs))) = None"
    from sb(10) [OF this] show False using assms(1) by (simp add: runAt_def)
  qed
  then show "runAt (snd (stepBody createTransferSagaSteps i rs))
           (st\<lparr> currentStep := i, lastError := Some storeError,
               retryCount := (if retryable (createTransferSagaSteps ! i) \<and> retryCount st < maxRetries (createTransferSagaSteps ! i)
                              then retryCount st + 1 else retryCount st) \<rparr>) fs cfs c W"
    using sb(2-9) assms(1) by (simp add: runAt_def)
qed

lemma link_ok:
  assumes "runAt rs st (f # fs) cfs c W"
      and "execute (createTransferSagaSteps ! i) f c (r_world rs) = (None, c', w')"
      and "c_transactionId c' = c_transactionId c"
      and "findTransaction (c_transactionId c) w' \<noteq> None"
  shows "fst (stepBody createTransferSagaSteps i rs) = Advance"
    and "runAt (snd (stepBody createTransferSagaSteps i rs))
           (st\<lparr> currentStep := i,
               completedSteps := completedSteps st @ [name (createTransferSagaSteps ! i)] \<rparr>)
           fs cfs c' (wallets w')"
proof -
  have nf: "nextFault (r_faults rs) = (f, fs)"
    using assms(1) by (simp add: runAt_def)
  have ex: "execute (createTransferSagaSteps ! i) f (r_context rs) (r_world rs) = (None, c', w')"
    using assms(1,2) by (simp add: runAt_def)
  note sb = stepBody_ok [OF nf ex]
  show "fst (stepBody createTransferSagaSteps i rs) = Advance" by (rule sb(1))
  show "runAt (snd (stepBody createTransferSagaSteps i rs))
           (st\<lparr> currentStep := i,
               completedSteps := completedSteps st @ [name (createTransferSagaSteps ! i)] \<rparr>)
           fs cfs c' (wallets w')"
    using sb(2-7) sb(10) [of "c_transactionId c"] assms(1,3,4) by (simp add: runAt_def)
qed

lemma link_validate:
  assumes "runAt rs st (f # fs) cfs c W" and "f \<noteq> StoreDown"
      and "W (c_sourceWalletId c) = Some x" "w_isActive x"
      and "W (c_destinationWalletId c) = Some y" "w_isActive y"
      and "w_currency x = w_currency y"
  shows "fst (stepBody createTransferSagaSteps 0 rs) = Advance"
    and "runAt (snd (stepBody createTransferSagaSteps 0 rs))
           (st\<lparr> currentStep := 0, completedSteps := completedSteps st @ [''validate_transfer''] \<rparr>)
           fs cfs c W"
proof -
  have ex: "execute (createTransferSagaSteps ! 0) f c (r_world rs) = (None, c, r_world rs)"
    using assms by (simp add: createTransferSagaSteps_def validateTransfer_def findActiveWallet_def runAt_def)
  have row: "findTransaction (c_transactionId c) (r_world rs) \<noteq> None"
    using assms(1) by (simp add: runAt_def)
  from link_ok [OF assms(1) ex refl row]
  show "fst (stepBody createTransferSagaSteps 0 rs) = Advance"
    and "runAt (snd (stepBody createTransferSagaSteps 0 rs))
           (st\<lparr> currentStep := 0, completedSteps := completedSteps st @ [''validate_transfer''] \<rparr>)
           fs cfs c W"
    using assms(1) by (simp_all add: createTransferSagaSteps_def runAt_def)
qed



lemma link_credit:
  assumes "runAt rs st (NoFault # fs) cfs c W"
      and "W (c_destinationWalletId c) = Some y"
  shows "fst (stepBody createTransferSagaSteps 3 rs) = Advance"
    and "runAt (snd (stepBody createTransferSagaSteps 3 rs))
           (st\<lparr> currentStep := 3, completedSteps := completedSteps st @ [''credit_destination_wallet''] \<rparr>)
           fs cfs (c\<lparr> c_destinationBalanceBefore := Some (w_balance y) \<rparr>)
           (adjusted (c_destinationWalletId c) (c_amount c) W)"
proof -
  obtain w' where ex: "execute (createTransferSagaSteps ! 3) NoFault c (r_world rs)
        = (None, c\<lparr> c_destinationBalanceBefore := Some (w_balance y) \<rparr>, w')"
      and w': "wallets w' = adjusted (c_destinationWalletId c) (c_amount c) W"
              "findTransaction (c_transactionId c) w' \<noteq> None"
    using assms by (simp add: createTransferSagaSteps_def creditDestinationWallet_def runAt_def Let_def)
  from link_ok [OF assms(1) ex _ w'(2)]
  show "fst (stepBody createTransferSagaSteps 3 rs) = Advance"
    and "runAt (snd (stepBody createTransferSagaSteps 3 rs))
           (st\<lparr> currentStep := 3, completedSteps := completedSteps st @ [''credit_destination_wallet''] \<rparr>)
           fs cfs (c\<lparr> c_destinationBalanceBefore := Some (w_balance y) \<rparr>)
           (adjusted (c_destinationWalletId c) (c_amount c) W)"
    using w'(1) by (simp_all add: createTransferSagaSteps_def)
qed

lemma runAt_init:
  assumes "t_id tx = c_transactionId c"
  shows "runAt (updateSagaState \<lparr> r_world = w, r_context = c, r_transaction = tx,
                   r_sagaState = st, r_faults = fs, r_cfaults = cfs \<rparr>) st fs cfs c (wallets w)"
  using assms by (simp add: runAt_def)

lemma compensateLoop_Cons:
  assumes "find (\<lambda>s. name s = n) steps = Some step"
      and "nextFault (r_cfaults rs) = (f, fs)"
      and "compensate step f (r_context rs) (r_world rs) = (err, c', w')"
  shows "compensateLoop steps (n # ns) rs =
           compensateLoop steps ns
             (rs\<lparr> r_cfaults := fs, r_context := c', r_world := w',
                  r_sagaState := (r_sagaState rs)\<lparr> compensatedSteps :=
                     (if err = None then compensatedSteps (r_sagaState rs) @ [n]
                      else compensatedSteps (r_sagaState rs)) \<rparr> \<rparr>)"
  using assms by (cases err) (simp_all add: Let_def)

lemma compensateLoop_frame:
  "r_faults (compensateLoop steps ns rs) = r_faults rs \<and>
   r_transaction (compensateLoop steps ns rs) = r_transaction rs \<and>
   currentStep (r_sagaState (compensateLoop steps ns rs)) = currentStep (r_sagaState rs) \<and>
   completedSteps (r_sagaState (compensateLoop steps ns rs)) = completedSteps (r_sagaState rs) \<and>
   lastError (r_sagaState (compensateLoop steps ns rs)) = lastError (r_sagaState rs) \<and>
   retryCount (r_sagaState (compensateLoop steps ns rs)) = retryCount (r_sagaState rs)"
proof (induction ns arbitrary: rs)
  case Nil
  show ?case by simp
next
  case (Cons n ns)
  show ?case
  proof (cases "find (\<lambda>s. name s = n) steps")
    case None
    then show ?thesis using Cons.IH [of rs] by simp
  next
    case (Some step)
    obtain f fs where nf: "nextFault (r_cfaults rs) = (f, fs)" by (cases "nextFault (r_cfaults rs)")
    obtain err c' w' where cp: "compensate step f (r_context rs) (r_world rs) = (err, c', w')"
      by (cases "compensate step f (r_context rs) (r_world rs)")
    show ?thesis
      unfolding compensateLoop_Cons [OF Some nf cp]
      using Cons.IH [of "rs\<lparr> r_cfaults := fs, r_context := c', r_world := w',
                  r_sagaState := (r_sagaState rs)\<lparr> compensatedSteps :=
                     (if err = None then compensatedSteps (r_sagaState rs) @ [n]
                      else compensatedSteps (r_sagaState rs)) \<rparr> \<rparr>"]
      by simp
  qed
qed


lemma compensateSaga_frame:
  "r_faults (compensateSaga steps rs) = r_faults rs"
  "currentStep (r_sagaState (compensateSaga steps rs)) = currentStep (r_sagaState rs)"
  "completedSteps (r_sagaState (compensateSaga steps rs)) = rev (completedSteps (r_sagaState rs))"
  "lastError (r_sagaState (compensateSaga steps rs)) = lastError (r_sagaState rs)"
  "retryCount (r_sagaState (compensateSaga steps rs)) = retryCount (r_sagaState rs)"
  "t_id (r_transaction (compensateSaga steps rs)) = t_id (r_transaction rs)"
  "t_status (r_transaction (compensateSaga steps rs)) = FAILED"
  "t_transferState (r_transaction (compensateSaga steps rs)) = Some TS_COMPENSATED"
  by (simp_all add: compensateSaga_def Let_def compensateLoop_frame)








lemma executeSaga_run:
  assumes "runSteps steps 0 (updateSagaState \<lparr> r_world = w, r_context = c, r_transaction = tx,
                    r_sagaState = \<lparr> currentStep = 0, completedSteps = [], compensatedSteps = [],
                                    lastError = None, retryCount = 0 \<rparr>,
                    r_faults = fs, r_cfaults = cfs \<rparr>) = (Inl e, rs1)"
  shows "executeSaga tx steps c fs cfs w = (Inl e, compensateSaga steps rs1)"
  using assms by (simp add: executeSaga_def Let_def)

lemma checkIdempotency_frame:
  "wallets (snd (checkIdempotency k request w)) = wallets w"
  "transactions (snd (checkIdempotency k request w)) = transactions w"
  "transferLimits (snd (checkIdempotency k request w)) = transferLimits w"
  by (simp_all add: checkIdempotency_def idempotency_handleExistingTransaction_def
      validateRequestUniqueness_def storeResult_def Let_def
      split: option.splits TransactionStatus.splits prod.splits)

lemma debitSourceWallet_walletLocks:
  "walletLocks (snd (snd (debitSourceWallet f context w))) = walletLocks w"
  by (simp add: debitSourceWallet_def adjustBalance_def setWalletBalanceWithVersion_def Let_def
      split: option.splits)







lemma sameTransfer_refl [simp]: "sameTransfer c c"
  by (simp add: sameTransfer_def)























section \<open>The runs of the scenarios\<close>

lemma run_S1_at:
  "runAt (run_S1 fs cfs) sagaState0 fs cfs context_S1 wallets_S1"
  unfolding run_S1_def
  using runAt_init [of transaction_S1 context_S1 started_S1 sagaState0 fs cfs]
  by (simp add: transaction_S1_def context_S1_def started_S1_def world_S1_def)

lemma wallets_S1_lookup:
  "wallets_S1 (c_sourceWalletId context_S1) = Some \<lparr> w_balance = 100000, w_currency = ''USD'',
       w_isActive = True, w_userId = ''u1'' \<rparr>"
  "wallets_S1 (c_destinationWalletId context_S1) = Some \<lparr> w_balance = 0, w_currency = ''USD'',
       w_isActive = True, w_userId = ''u2'' \<rparr>"
  by (simp_all add: wallets_S1_def context_S1_def)

lemma run_C7:
  "fst (runSteps createTransferSagaSteps 0 (run_S1 faults_C7 [])) = Inl storeError"
  "runAt (snd (runSteps createTransferSagaSteps 0 (run_S1 faults_C7 [])))
     \<lparr> currentStep = 1, completedSteps = [''validate_transfer''], compensatedSteps = [],
       lastError = Some storeError, retryCount = 2 \<rparr>
     [NoFault, NoFault, NoFault, NoFault] [] context_S1 wallets_S1"
proof -
  let ?S = createTransferSagaSteps
  define s0 where "s0 = run_S1 faults_C7 []"
  define s1 where "s1 = snd (stepBody ?S 0 s0)"
  define s2 where "s2 = snd (stepBody ?S 0 s1)"
  define s3 where "s3 = snd (stepBody ?S 0 s2)"
  define s4 where "s4 = snd (stepBody ?S 1 s3)"
  have a0: "runAt s0 sagaState0
              (StoreDown # [StoreDown, NoFault, StoreDown, NoFault, NoFault, NoFault, NoFault]) []
              context_S1 wallets_S1"
    unfolding s0_def using run_S1_at [of faults_C7 "[]"] by (simp add: faults_C7_def)
  have o1: "fst (stepBody ?S 0 s0) = Retry"
    using link_store_down(1) [OF a0, of 0] by (simp add: createTransferSagaSteps_def sagaState0_def)
  have a1: "runAt s1 \<lparr> currentStep = 0, completedSteps = [], compensatedSteps = [],
                        lastError = Some storeError, retryCount = 1 \<rparr>
              (StoreDown # [NoFault, StoreDown, NoFault, NoFault, NoFault, NoFault]) []
              context_S1 wallets_S1"
    unfolding s1_def using link_store_down(2) [OF a0, of 0]
    by (simp add: createTransferSagaSteps_def sagaState0_def)
  have o2: "fst (stepBody ?S 0 s1) = Retry"
    using link_store_down(1) [OF a1, of 0] by (simp add: createTransferSagaSteps_def)
  have a2: "runAt s2 \<lparr> currentStep = 0, completedSteps = [], compensatedSteps = [],
                        lastError = Some storeError, retryCount = 2 \<rparr>
              (NoFault # [StoreDown, NoFault, NoFault, NoFault, NoFault]) []
              context_S1 wallets_S1"
    unfolding s2_def using link_store_down(2) [OF a1, of 0]
    by (simp add: createTransferSagaSteps_def numeral_2_eq_2)
  have o3: "fst (stepBody ?S 0 s2) = Advance"
    by (rule link_validate(1) [OF a2 _ wallets_S1_lookup(1) _ wallets_S1_lookup(2)]) simp_all
  have a3: "runAt s3 \<lparr> currentStep = 0, completedSteps = [''validate_transfer''],
                        compensatedSteps = [], lastError = Some storeError, retryCount = 2 \<rparr>
              (StoreDown # [NoFault, NoFault, NoFault, NoFault]) []
              context_S1 wallets_S1"
    unfolding s3_def
    using link_validate(2) [OF a2 _ wallets_S1_lookup(1) _ wallets_S1_lookup(2)] by simp
  have o4: "fst (stepBody ?S 1 s3) = Abort storeError"
    using link_store_down(1) [OF a3, of 1] by (simp add: createTransferSagaSteps_def)
  have a4: "runAt s4 \<lparr> currentStep = 1, completedSteps = [''validate_transfer''],
                        compensatedSteps = [], lastError = Some storeError, retryCount = 2 \<rparr>
              [NoFault, NoFault, NoFault, NoFault] []
              context_S1 wallets_S1"
    unfolding s4_def using link_store_down(2) [OF a3, of 1]
    by (simp add: createTransferSagaSteps_def)
  have "runSteps ?S 0 s0 = runSteps ?S 0 s1"
    unfolding s1_def using o1 by (simp add: runSteps_Retry)
  also have "\<dots> = runSteps ?S 0 s2"
    unfolding s2_def using o2 by (simp add: runSteps_Retry)
  also have "\<dots> = runSteps ?S 1 s3"
    unfolding s3_def using o3 by (simp add: runSteps_Advance)
  also have "\<dots> = (Inl storeError, s4)"
    unfolding s4_def using o4 by (simp add: runSteps_Abort)
  finally have run: "runSteps ?S 0 (run_S1 faults_C7 []) = (Inl storeError, s4)"
    by (simp add: s0_def)
  show "fst (runSteps ?S 0 (run_S1 faults_C7 [])) = Inl storeError"
    by (simp add: run)
  show "runAt (snd (runSteps createTransferSagaSteps 0 (run_S1 faults_C7 [])))
     \<lparr> currentStep = 1, completedSteps = [''validate_transfer''], compensatedSteps = [],
       lastError = Some storeError, retryCount = 2 \<rparr>
     [NoFault, NoFault, NoFault, NoFault] [] context_S1 wallets_S1"
    using a4 by (simp add: run)
qed

lemma executeSaga_S1:
  assumes "runSteps createTransferSagaSteps 0 (run_S1 fs cfs) = (Inl e, rs1)"
  shows "executeSaga transaction_S1 createTransferSagaSteps context_S1 fs cfs started_S1
           = (Inl e, compensateSaga createTransferSagaSteps rs1)"
  using assms unfolding run_S1_def sagaState0_def by (rule executeSaga_run)




section \<open>The claims\<close>

text \<open>
  Claim C1. A transfer request whose idempotency key is that of a transaction with status
  COMPLETED is answered without running anything: whether the first response is still in
  the result cache or the cache entry has expired and the response is rebuilt from the row,
  \<open>transferFunds\<close> returns a response with the transaction id, amount, source wallet id
  and destination wallet id of the first response, and the wallets, the transaction rows
  and the limit ledger are as they were.
\<close>

theorem transferFunds_replays_completed:
  assumes key: "idempotencyKeyOf ev transferDto = k"
      and row: "findByIdempotencyKey k w = Some t" "t_status t = COMPLETED"
      and first: "r_id first = t_id t" "r_amount first = t_amount t"
                 "r_sourceWalletId first = t_sourceWalletId t"
                 "r_destinationWalletId first = t_destinationWalletId t"
      and cache: "resultCache w k = None \<or> resultCache w k = Some first"
  shows "\<exists>r w'. transferFunds ev sourceWalletId user transferDto w = (Inr r, w')
           \<and> r_id r = r_id first \<and> r_amount r = r_amount first
           \<and> r_sourceWalletId r = r_sourceWalletId first
           \<and> r_destinationWalletId r = r_destinationWalletId first
           \<and> wallets w' = wallets w \<and> balanceCache w' = balanceCache w
           \<and> transactions w' = transactions w \<and> transferLimits w' = transferLimits w"
proof (cases "resultCache w k")
  case (Some cached)
  with cache have "cached = first" by simp
  with Some key show ?thesis
    by (simp add: transferFunds_def checkIdempotency_def Let_def)
next
  case None
  with key row first show ?thesis
    by (simp add: transferFunds_def checkIdempotency_def Let_def
        idempotency_handleExistingTransaction_def reconstructResultFromTransaction_def
        isCompleted_def storeResult_def)
qed

text \<open>The replay of S3: the key \<open>abc\<close> again, after the transfer has completed.\<close>

theorem transferFunds_replays_completed_witness:
  "idempotencyKeyOf env_S1 transfer_S1 = ''abc''
   \<and> findByIdempotencyKey ''abc'' world_S3 = Some completed_S3
   \<and> t_status completed_S3 = COMPLETED
   \<and> resultCache world_S3 ''abc'' = Some (mapToTransferResponseDto completed_S3)
   \<and> (\<exists>r w'. transferFunds env_S1 ''A'' user_S1 transfer_S1 world_S3 = (Inr r, w')
          \<and> r_id r = 1 \<and> r_amount r = 15000
          \<and> r_sourceWalletId r = Some ''A'' \<and> r_destinationWalletId r = Some ''B''
          \<and> map_option w_balance (wallets w' ''A'') = Some 85000
          \<and> wallets w' = wallets world_S3 \<and> balanceCache w' = balanceCache world_S3
          \<and> transactions w' = transactions world_S3
          \<and> transferLimits w' = transferLimits world_S3)"
proof -
  have k: "idempotencyKeyOf env_S1 transfer_S1 = ''abc''"
    by (simp add: idempotencyKeyOf_def transfer_S1_def)
  have row: "findByIdempotencyKey ''abc'' world_S3 = Some completed_S3"
            "t_status completed_S3 = COMPLETED"
    by (simp_all add: findByIdempotencyKey_def world_S3_def world_S1_def completed_S3_def)
  have c2: "resultCache world_S3 ''abc'' = Some (mapToTransferResponseDto completed_S3)"
    by (simp add: world_S3_def world_S1_def)
  then have cache: "resultCache world_S3 ''abc'' = None
               \<or> resultCache world_S3 ''abc'' = Some (mapToTransferResponseDto completed_S3)"
    by simp
  have first: "r_id (mapToTransferResponseDto completed_S3) = t_id completed_S3"
      "r_amount (mapToTransferResponseDto completed_S3) = t_amount completed_S3"
      "r_sourceWalletId (mapToTransferResponseDto completed_S3) = t_sourceWalletId completed_S3"
      "r_destinationWalletId (mapToTransferResponseDto completed_S3) = t_destinationWalletId completed_S3"
    by (simp_all add: mapToTransferResponseDto_def)
  have vals: "r_id (mapToTransferResponseDto completed_S3) = 1"
      "r_amount (mapToTransferResponseDto completed_S3) = 15000"
      "r_sourceWalletId (mapToTransferResponseDto completed_S3) = Some ''A''"
      "r_destinationWalletId (mapToTransferResponseDto completed_S3) = Some ''B''"
    by (simp_all add: mapToTransferResponseDto_def completed_S3_def)
  have bal: "map_option w_balance (wallets world_S3 ''A'') = Some 85000"
    by (simp add: world_S3_def world_S1_def)
  from transferFunds_replays_completed [OF k row first cache, of "''A''" user_S1]
  obtain r w' where res: "transferFunds env_S1 ''A'' user_S1 transfer_S1 world_S3 = (Inr r, w')"
    and eqs: "r_id r = r_id (mapToTransferResponseDto completed_S3)"
       "r_amount r = r_amount (mapToTransferResponseDto completed_S3)"
       "r_sourceWalletId r = r_sourceWalletId (mapToTransferResponseDto completed_S3)"
       "r_destinationWalletId r = r_destinationWalletId (mapToTransferResponseDto completed_S3)"
       "wallets w' = wallets world_S3" "balanceCache w' = balanceCache world_S3"
       "transactions w' = transactions world_S3" "transferLimits w' = transferLimits world_S3"
    by blast
  show ?thesis
    using k row c2 res eqs vals bal by simp
qed




text \<open>
  Claim C9. Two payloads that agree on \<open>destinationWalletId\<close>, \<open>amount\<close> and
  \<open>description\<close> have the same request hash under the same method, endpoint and user,
  whatever their \<open>idempotencyKey\<close> and \<open>externalReferenceId\<close> are.
\<close>

theorem createRequestHash_business_fields_only:
  assumes "destinationWalletId p = destinationWalletId p'"
      and "amount p = amount p'"
      and "description p = description p'"
  shows "createRequestHash h js method endpoint p userId = createRequestHash h js method endpoint p' userId"
  using assms by (simp add: createRequestHash_def)

text \<open>Two payloads of S1 that differ in both excluded fields.\<close>

theorem createRequestHash_business_fields_only_witness:
  "destinationWalletId transfer_S1 = destinationWalletId (transfer_S1\<lparr> idempotencyKey := Some ''xyz'', externalReferenceId := Some ''ref-1'' \<rparr>)
   \<and> amount transfer_S1 = amount (transfer_S1\<lparr> idempotencyKey := Some ''xyz'', externalReferenceId := Some ''ref-1'' \<rparr>)
   \<and> description transfer_S1 = description (transfer_S1\<lparr> idempotencyKey := Some ''xyz'', externalReferenceId := Some ''ref-1'' \<rparr>)
   \<and> idempotencyKey transfer_S1 \<noteq> idempotencyKey (transfer_S1\<lparr> idempotencyKey := Some ''xyz'', externalReferenceId := Some ''ref-1'' \<rparr>)
   \<and> createRequestHash (md5 env_S1) (stringify env_S1) ''POST'' ''/wallets/A/transfer'' transfer_S1 ''u1''
       = createRequestHash (md5 env_S1) (stringify env_S1) ''POST'' ''/wallets/A/transfer''
           (transfer_S1\<lparr> idempotencyKey := Some ''xyz'', externalReferenceId := Some ''ref-1'' \<rparr>) ''u1''"
  using createRequestHash_business_fields_only [of transfer_S1 "transfer_S1\<lparr> idempotencyKey := Some ''xyz'', externalReferenceId := Some ''ref-1'' \<rparr>"
               "md5 env_S1" "stringify env_S1" "''POST''" "''/wallets/A/transfer''" "''u1''"]
  by (simp add: transfer_S1_def)

text \<open>
  Claim C10. \<open>getTransferLimits\<close> leaves the world as it finds it, the stored ledger row
  included, after one read and after any number of reads.
\<close>

theorem getTransferLimits_read_only:
  "snd (getTransferLimits userId w) = w
   \<and> ((\<lambda>w'. snd (getTransferLimits userId w')) ^^ n) w = w"
proof -
  have one: "\<And>w'. snd (getTransferLimits userId w') = w'"
    by (simp add: getTransferLimits_def Let_def split: option.splits)
  have "((\<lambda>w'. snd (getTransferLimits userId w')) ^^ n) w = w"
    by (induction n) (simp_all add: one)
  with one show ?thesis by simp
qed

text \<open>
  Claim C4, as the code has it. A request that passes the idempotency gate as new, with a
  positive amount, two distinct wallets that exist, are active and share a currency, the
  source owned by the caller, and a source balance below the amount, fails in
  \<open>validateTransferRequest\<close> with the 400 error \<open>Insufficient balance\<close>; the wallets, the
  limit ledger and the transaction table are as they were: no row is written for the
  request.
\<close>

theorem transferFunds_insufficient_balance_rejected_before_any_row:
  assumes gate: "checkIdempotency (idempotencyKeyOf ev transferDto)
                   (idempotencyRequestOf ev sourceWalletId user transferDto) w = (Inr res, w1)"
                "isNew res"
      and amt: "0 < amount transferDto"
      and other: "sourceWalletId \<noteq> destinationWalletId transferDto"
      and src: "wallets w sourceWalletId = Some sourceWallet" "w_isActive sourceWallet"
               "w_userId sourceWallet = u_id user"
      and dst: "wallets w (destinationWalletId transferDto) = Some destinationWallet"
               "w_isActive destinationWallet"
      and cur: "w_currency sourceWallet = w_currency destinationWallet"
      and low: "w_balance sourceWallet < amount transferDto"
  shows "fst (transferFunds ev sourceWalletId user transferDto w)
           = Inl (BadRequestException ''Insufficient balance'')
       \<and> wallets (snd (transferFunds ev sourceWalletId user transferDto w)) = wallets w
       \<and> transferLimits (snd (transferFunds ev sourceWalletId user transferDto w)) = transferLimits w
       \<and> transactions (snd (transferFunds ev sourceWalletId user transferDto w)) = transactions w"
proof -
  have w1: "wallets w1 = wallets w" "transactions w1 = transactions w"
           "transferLimits w1 = transferLimits w"
    using checkIdempotency_frame [of "idempotencyKeyOf ev transferDto"
            "idempotencyRequestOf ev sourceWalletId user transferDto" w] gate(1)
    by simp_all
  have v: "validateTransferRequest sourceWalletId (destinationWalletId transferDto)
             (amount transferDto) user w1 = (Some (BadRequestException ''Insufficient balance''), w1)"
    using amt other src dst cur low w1(1)
    by (simp add: validateTransferRequest_def findActiveWallet_def)
  show ?thesis
    using gate v w1 by (simp add: transferFunds_def Let_def)
qed

text \<open>S2: 150.00 asked of a source that holds 50.00.\<close>

theorem transferFunds_insufficient_balance_rejected_before_any_row_witness:
  "(case fst (checkIdempotency (idempotencyKeyOf env_S1 transfer_S1)
               (idempotencyRequestOf env_S1 ''A'' user_S1 transfer_S1) world_S2) of
      Inl e \<Rightarrow> False | Inr res \<Rightarrow> isNew res)
   \<and> 0 < amount transfer_S1 \<and> ''A'' \<noteq> destinationWalletId transfer_S1
   \<and> map_option w_balance (wallets world_S2 ''A'') = Some 5000
   \<and> fst (transferFunds env_S1 ''A'' user_S1 transfer_S1 world_S2)
       = Inl (BadRequestException ''Insufficient balance'')
   \<and> wallets (snd (transferFunds env_S1 ''A'' user_S1 transfer_S1 world_S2)) = wallets world_S2
   \<and> transferLimits (snd (transferFunds env_S1 ''A'' user_S1 transfer_S1 world_S2))
       = transferLimits world_S2
   \<and> transactions (snd (transferFunds env_S1 ''A'' user_S1 transfer_S1 world_S2))
       = transactions world_S2"
proof -
  obtain res w1 where gate:
      "checkIdempotency (idempotencyKeyOf env_S1 transfer_S1)
         (idempotencyRequestOf env_S1 ''A'' user_S1 transfer_S1) world_S2 = (Inr res, w1)"
      "isNew res"
    by (simp add: idempotencyKeyOf_def idempotencyRequestOf_def checkIdempotency_def
        findByIdempotencyKey_def validateRequestUniqueness_def createRequestHash_def Let_def
        env_S1_def user_S1_def transfer_S1_def world_S2_def world_S1_def)
  have amt: "0 < amount transfer_S1" "''A'' \<noteq> destinationWalletId transfer_S1"
    by (simp_all add: transfer_S1_def)
  have src: "wallets world_S2 ''A'' = Some \<lparr> w_balance = 5000, w_currency = ''USD'',
                 w_isActive = True, w_userId = ''u1'' \<rparr>"
    by (simp add: world_S2_def world_S1_def)
  have dst: "wallets world_S2 (destinationWalletId transfer_S1) = Some \<lparr> w_balance = 0,
                 w_currency = ''USD'', w_isActive = True, w_userId = ''u2'' \<rparr>"
    by (simp add: world_S2_def world_S1_def transfer_S1_def)
  have "fst (transferFunds env_S1 ''A'' user_S1 transfer_S1 world_S2)
           = Inl (BadRequestException ''Insufficient balance'')
       \<and> wallets (snd (transferFunds env_S1 ''A'' user_S1 transfer_S1 world_S2)) = wallets world_S2
       \<and> transferLimits (snd (transferFunds env_S1 ''A'' user_S1 transfer_S1 world_S2))
           = transferLimits world_S2
       \<and> transactions (snd (transferFunds env_S1 ''A'' user_S1 transfer_S1 world_S2))
           = transactions world_S2"
    by (rule transferFunds_insufficient_balance_rejected_before_any_row [OF gate amt src _ _ dst]) (simp_all add: user_S1_def transfer_S1_def)
  then show ?thesis using gate amt src by simp
qed

text \<open>
  Against claim C4 as stated: in S2 the call fails with \<open>Insufficient balance\<close> and the
  transaction table is still empty, so there is no FAILED row for the request.
\<close>

theorem transferFunds_insufficient_balance_leaves_no_row:
  "fst (transferFunds env_S1 ''A'' user_S1 transfer_S1 world_S2)
     = Inl (BadRequestException ''Insufficient balance'')
   \<and> transactions (snd (transferFunds env_S1 ''A'' user_S1 transfer_S1 world_S2)) = []"
  by (simp add: transferFunds_def idempotencyKeyOf_def idempotencyRequestOf_def
      checkIdempotency_def findByIdempotencyKey_def validateRequestUniqueness_def
      createRequestHash_def validateTransferRequest_def findActiveWallet_def Let_def
      env_S1_def user_S1_def transfer_S1_def world_S2_def world_S1_def)

text \<open>
  Claim C8 on the code. In S1 the first pass of the loop completes \<open>validate_transfer\<close>
  and leaves the transfer sub-state at INITIATED, where the claim has VALIDATION_COMPLETE:
  \<open>getTransferStateForStep\<close> maps the index of the step that has just completed to the
  sub-state of the step before it.
\<close>

theorem validate_transfer_completes_in_INITIATED:
  "fst (stepBody createTransferSagaSteps 0 (run_S1 [] [])) = Advance
   \<and> completedSteps (r_sagaState (snd (stepBody createTransferSagaSteps 0 (run_S1 [] []))))
       = [''validate_transfer'']
   \<and> t_transferState (r_transaction (snd (stepBody createTransferSagaSteps 0 (run_S1 [] []))))
       = Some TS_INITIATED
   \<and> map getTransferStateForStep [0, 1, 2, 3, 4]
       = [TS_INITIATED, TS_VALIDATION_COMPLETE, TS_FUNDS_RESERVED, TS_DEBIT_COMPLETE,
          TS_CREDIT_COMPLETE]"
proof -
  let ?rs = "run_S1 [] []"
  have nf: "nextFault (r_faults ?rs) = (NoFault, [])"
    using run_S1_at [of "[]" "[]"] by (simp add: runAt_def)
  have ex: "execute (createTransferSagaSteps ! 0) NoFault (r_context ?rs) (r_world ?rs)
              = (None, r_context ?rs, r_world ?rs)"
    using run_S1_at [of "[]" "[]"] wallets_S1_lookup
    by (simp add: runAt_def createTransferSagaSteps_def validateTransfer_def findActiveWallet_def)
  note sb = stepBody_ok [OF nf ex]
  have st: "r_sagaState ?rs = sagaState0"
    using run_S1_at [of "[]" "[]"] by (simp add: runAt_def)
  have "completedSteps (r_sagaState (snd (stepBody createTransferSagaSteps 0 ?rs))) = [''validate_transfer'']"
    using sb(2) st by (simp add: sagaState0_def createTransferSagaSteps_def)
  moreover have "t_transferState (r_transaction (snd (stepBody createTransferSagaSteps 0 ?rs))) = Some TS_INITIATED"
    using sb(9) by (simp add: getTransferStateForStep_def stateMap_def)
  moreover have "map getTransferStateForStep [0, 1, 2, 3, 4]
       = [TS_INITIATED, TS_VALIDATION_COMPLETE, TS_FUNDS_RESERVED, TS_DEBIT_COMPLETE,
          TS_CREDIT_COMPLETE]"
    by (simp add: getTransferStateForStep_def stateMap_def)
  ultimately show ?thesis using sb(1) by simp
qed

text \<open>
  Claim C3 on the code. The lease of wallet \<open>A\<close> is held by another writer, so
  \<open>withWalletLock\<close> on \<open>A\<close> fails to acquire it; the saga's \<open>debitSourceWallet\<close> debits
  \<open>A\<close> all the same and leaves the lease entry as it found it: the step neither acquires
  nor checks the lease.
\<close>

theorem debitSourceWallet_ignores_the_lease:
  "walletLocks locked_S1 ''A'' = Some ''1700000000000_0.42''
   \<and> fst (withWalletLock ''A'' ''1700000000001_0.77'' (\<lambda>w. (Inr (), w)) locked_S1)
       = Inl (Error ''Unable to acquire lock for wallet'')
   \<and> fst (debitSourceWallet NoFault context_S1 locked_S1) = None
   \<and> map_option w_balance (wallets locked_S1 ''A'') = Some 100000
   \<and> map_option w_balance (wallets (snd (snd (debitSourceWallet NoFault context_S1 locked_S1))) ''A'')
       = Some 85000
   \<and> walletLocks (snd (snd (debitSourceWallet NoFault context_S1 locked_S1))) ''A''
       = Some ''1700000000000_0.42''"
  by (simp add: debitSourceWallet_walletLocks)
     (simp add: locked_S1_def started_S1_def world_S1_def wallets_S1_def context_S1_def
        withWalletLock_def acquireWalletLock_def debitSourceWallet_def adjustBalance_def
        setWalletBalanceWithVersion_def getWalletBalanceWithVersion_def Let_def)




text \<open>
  Claim C7 on the code. The step table gives each step the \<open>maxRetries\<close> the claim lists.
  Two failed attempts of \<open>validate_transfer\<close> bring the one retry count of the saga to 2;
  when the first attempt of \<open>reserve_funds\<close> then fails, \<open>2 < 2\<close> is false and the saga
  goes to compensation without retrying \<open>reserve_funds\<close> once, with four faultless
  attempts still to come.
\<close>

theorem retries_of_validate_use_up_the_budget_of_reserve:
  "map (\<lambda>s. (name s, maxRetries s)) createTransferSagaSteps
     = [(''validate_transfer'', 3), (''reserve_funds'', 2), (''debit_source_wallet'', 2),
        (''credit_destination_wallet'', 2), (''finalize_transfer'', 0)]
   \<and> faults_C7 = [StoreDown, StoreDown, NoFault, StoreDown, NoFault, NoFault, NoFault, NoFault]
   \<and> fst (executeSaga transaction_S1 createTransferSagaSteps context_S1 faults_C7 [] started_S1)
       = Inl storeError
   \<and> currentStep (r_sagaState (snd (executeSaga transaction_S1 createTransferSagaSteps
         context_S1 faults_C7 [] started_S1))) = 1
   \<and> retryCount (r_sagaState (snd (executeSaga transaction_S1 createTransferSagaSteps
         context_S1 faults_C7 [] started_S1))) = 2
   \<and> r_faults (snd (executeSaga transaction_S1 createTransferSagaSteps
         context_S1 faults_C7 [] started_S1)) = [NoFault, NoFault, NoFault, NoFault]"
proof -
  obtain rs1 where run: "runSteps createTransferSagaSteps 0 (run_S1 faults_C7 []) = (Inl storeError, rs1)"
    and at: "runAt rs1 \<lparr> currentStep = 1, completedSteps = [''validate_transfer''], compensatedSteps = [],
       lastError = Some storeError, retryCount = 2 \<rparr>
       [NoFault, NoFault, NoFault, NoFault] [] context_S1 wallets_S1"
    using run_C7 by (cases "runSteps createTransferSagaSteps 0 (run_S1 faults_C7 [])") simp
  have ex: "executeSaga transaction_S1 createTransferSagaSteps context_S1 faults_C7 [] started_S1
           = (Inl storeError, compensateSaga createTransferSagaSteps rs1)"
    by (rule executeSaga_S1 [OF run])
  have p1: "map (\<lambda>s. (name s, maxRetries s)) createTransferSagaSteps
     = [(''validate_transfer'', 3), (''reserve_funds'', 2), (''debit_source_wallet'', 2),
        (''credit_destination_wallet'', 2), (''finalize_transfer'', 0)]"
    by (simp add: createTransferSagaSteps_def)
  have p2: "faults_C7 = [StoreDown, StoreDown, NoFault, StoreDown, NoFault, NoFault, NoFault, NoFault]"
    by (simp add: faults_C7_def)
  have p3: "fst (executeSaga transaction_S1 createTransferSagaSteps context_S1 faults_C7 [] started_S1)
       = Inl storeError
   \<and> currentStep (r_sagaState (snd (executeSaga transaction_S1 createTransferSagaSteps
         context_S1 faults_C7 [] started_S1))) = 1
   \<and> retryCount (r_sagaState (snd (executeSaga transaction_S1 createTransferSagaSteps
         context_S1 faults_C7 [] started_S1))) = 2
   \<and> r_faults (snd (executeSaga transaction_S1 createTransferSagaSteps
         context_S1 faults_C7 [] started_S1)) = [NoFault, NoFault, NoFault, NoFault]"
    using at by (simp add: ex compensateSaga_frame runAt_def)
  from p1 p2 p3 show ?thesis by blast
qed




end
